theory Spec2Isabelle
  imports Main
begin

section \<open>Python values used by the Glue job scripts\<close>

text \<open>
  The two job scripts \<^verbatim>\<open>configuration.py\<close> and \<^verbatim>\<open>convert_parquet.py\<close> work on Python
  strings, lists and dictionaries. A Python exception is a value of \<open>error\<close>; a function
  that can raise returns \<open>error + 'a\<close> with \<open>Inl\<close> for the exception.
\<close>

datatype error =
    ValueError
  | IndexError
  | KeyError string
  | AttributeError
  | TypeError
  | ParserError
  | ItemNotFoundException string
  | NoNewDataException string

subsection \<open>\<^verbatim>\<open>str.split(sep)\<close>, \<^verbatim>\<open>sep.join(list)\<close>, \<^verbatim>\<open>list.pop()\<close>\<close>

definition startswith :: "string \<Rightarrow> string \<Rightarrow> bool" where
  "startswith sep s = (take (length sep) s = sep)"

text \<open>
  \<^verbatim>\<open>s.split(sep)\<close> scans \<open>s\<close> from the left; at the first position where \<open>sep\<close> starts it
  closes the current segment and resumes behind that occurrence. \<open>acc\<close> is the segment read
  so far. The test \<open>sep \<noteq> []\<close> only makes the recursion total: \<open>py_split\<close> raises for an
  empty separator before the scan starts, as Python does.
\<close>

function split_from :: "string \<Rightarrow> string \<Rightarrow> string \<Rightarrow> string list" where
  "split_from sep acc [] = [acc]"
| "split_from sep acc (c # cs) =
     (if sep \<noteq> [] \<and> startswith sep (c # cs)
      then acc # split_from sep [] (drop (length sep) (c # cs))
      else split_from sep (acc @ [c]) cs)"
  by pat_completeness auto
termination
  by (relation "measure (\<lambda>(sep, acc, s). length s)") auto

definition py_split :: "string \<Rightarrow> string \<Rightarrow> error + string list" where
  "py_split s sep = (if sep = [] then Inl ValueError else Inr (split_from sep [] s))"

fun py_join :: "string \<Rightarrow> string list \<Rightarrow> string" where
  "py_join sep [] = []"
| "py_join sep [x] = x"
| "py_join sep (x # y # ys) = x @ sep @ py_join sep (y # ys)"

definition py_pop :: "'a list \<Rightarrow> error + ('a list \<times> 'a)" where
  "py_pop xs = (case xs of [] \<Rightarrow> Inl IndexError | _ \<Rightarrow> Inr (butlast xs, last xs))"

subsection \<open>The alias handling of \<^verbatim>\<open>convert_data_format\<close>\<close>

text \<open>
  Lines 123 to 127 of \<^verbatim>\<open>convert_parquet.py\<close>:
  \<^verbatim>\<open>ids = name.split(delimiter); tag = ids.pop(); "id": delimiter.join(ids)\<close>.
  The result is the pair of the \<open>id\<close> and the \<open>tag\<close> of the converted message.
\<close>

definition decomposeMessageAlias :: "string \<Rightarrow> string \<Rightarrow> error + (string \<times> string)" where
  "decomposeMessageAlias delimiter name =
     (case py_split name delimiter of
        Inl e \<Rightarrow> Inl e
      | Inr ids \<Rightarrow>
          (case py_pop ids of
             Inl e \<Rightarrow> Inl e
           | Inr (ids', tag) \<Rightarrow> Inr (py_join delimiter ids', tag)))"

text \<open>
  The words of the specification, for comparison: \<open>contains sep s\<close> says that \<open>sep\<close> occurs
  in \<open>s\<close>, and \<open>substring_after_last sep s\<close> is what follows the last position of \<open>s\<close> at which
  \<open>sep\<close> starts (\<open>None\<close> when there is none).
\<close>

fun contains :: "string \<Rightarrow> string \<Rightarrow> bool" where
  "contains sep [] = (sep = [])"
| "contains sep (c # cs) = (startswith sep (c # cs) \<or> contains sep cs)"

fun substring_after_last :: "string \<Rightarrow> string \<Rightarrow> string option" where
  "substring_after_last sep [] = (if sep = [] then Some [] else None)"
| "substring_after_last sep (c # cs) =
     (case substring_after_last sep cs of
        Some t \<Rightarrow> Some t
      | None \<Rightarrow> if startswith sep (c # cs) then Some (drop (length sep) (c # cs)) else None)"

text \<open>
  A separator overlaps itself when a proper, non-empty suffix of it is also a prefix of it
  (\<open>''aa''\<close>, \<open>''::''\<close>, \<open>''-+-''\<close>). A separator of one character never does.
\<close>

definition no_self_overlap :: "string \<Rightarrow> bool" where
  "no_self_overlap sep = (\<forall>k \<in> set [1 ..< length sep]. drop k sep \<noteq> take (length sep - k) sep)"

subsection \<open>\<^verbatim>\<open>str.strip()\<close>, \<^verbatim>\<open>int(str)\<close>, list indexing\<close>

text \<open>
  A \<open>char\<close> stands for a code point below 256. \<open>isspace\<close> lists the code points below 256
  that \<^verbatim>\<open>str.isspace\<close> accepts, which are the ones \<^verbatim>\<open>str.strip()\<close> removes at both ends.
\<close>

definition isspace :: "char \<Rightarrow> bool" where
  "isspace c = (of_char c \<in> set [9, 10, 11, 12, 13, 28, 29, 30, 31, 32, 133, 160 :: nat])"

definition py_strip :: "string \<Rightarrow> string" where
  "py_strip s = rev (dropWhile isspace (rev (dropWhile isspace s)))"

definition isdigit :: "char \<Rightarrow> bool" where
  "isdigit c = (48 \<le> (of_char c :: nat) \<and> (of_char c :: nat) \<le> 57)"

definition digit_value :: "char \<Rightarrow> nat" where
  "digit_value c = of_char c - 48"

text \<open>
  The digits of a decimal literal behind its first digit, whose value so far is \<open>n\<close>: a
  single underscore may stand between two digits, nothing else may appear.
\<close>

fun int_digits :: "nat \<Rightarrow> string \<Rightarrow> nat option" where
  "int_digits n [] = Some n"
| "int_digits n [c] = (if isdigit c then Some (10 * n + digit_value c) else None)"
| "int_digits n (c # d # ds) =
     (if isdigit c then int_digits (10 * n + digit_value c) (d # ds)
      else if c = CHR ''_'' \<and> isdigit d then int_digits (10 * n + digit_value d) ds
      else None)"

text \<open>
  \<^verbatim>\<open>int(s)\<close> for a string. Whitespace at both ends is dropped; \<^verbatim>\<open>int\<close> has its own notion of
  whitespace, narrower than the one of \<^verbatim>\<open>str.strip()\<close>: the ASCII characters tab, line feed,
  vertical tab, form feed, carriage return and space, and of the code points from 127 on
  those that are Unicode whitespace (133 and 160 below 256). The separators 28 to 31 are
  not dropped, so \<^verbatim>\<open>int("\x1c1")\<close> raises. One sign is allowed, at least one digit must
  follow, and a literal of more than 4300 digits (the default of
  \<^verbatim>\<open>sys.set_int_max_str_digits\<close>, counting leading zeros but neither sign nor underscores)
  is refused. Every failure is a \<^verbatim>\<open>ValueError\<close>.
\<close>

definition int_isspace :: "char \<Rightarrow> bool" where
  "int_isspace c = (of_char c \<in> set [9, 10, 11, 12, 13, 32, 133, 160 :: nat])"

definition int_max_str_digits :: nat where
  "int_max_str_digits = 4300"

definition py_int :: "string \<Rightarrow> error + int" where
  "py_int s =
     (let t = rev (dropWhile int_isspace (rev (dropWhile int_isspace s)));
          negative = (t \<noteq> [] \<and> hd t = CHR ''-'');
          signed = (t \<noteq> [] \<and> (hd t = CHR ''-'' \<or> hd t = CHR ''+''));
          body = (if signed then tl t else t)
      in if length (filter isdigit body) > int_max_str_digits then Inl ValueError
         else
           (case body of
              [] \<Rightarrow> Inl ValueError
            | c # cs \<Rightarrow>
                if isdigit c
                then (case int_digits (digit_value c) cs of
                        None \<Rightarrow> Inl ValueError
                      | Some n \<Rightarrow> Inr (if negative then - int n else int n))
                else Inl ValueError))"

text \<open>
  \<^verbatim>\<open>xs[i]\<close>: an index below zero counts from the end of the list, and an index outside
  \<open>-len(xs) \<dots> len(xs) - 1\<close> raises \<^verbatim>\<open>IndexError\<close>.
\<close>

definition py_index :: "'a list \<Rightarrow> int \<Rightarrow> error + 'a" where
  "py_index xs i =
     (if 0 \<le> i \<and> i < int (length xs) then Inr (xs ! nat i)
      else if i < 0 \<and> - int (length xs) \<le> i then Inr (xs ! nat (int (length xs) + i))
      else Inl IndexError)"

section \<open>\<^verbatim>\<open>configuration.py\<close>\<close>

subsection \<open>\<^verbatim>\<open>build_location_line\<close>\<close>

text \<open>
  The \<^verbatim>\<open>for key in keys\<close> loop of lines 216 to 218; \<open>temp_list\<close> is the list built so far.
\<close>

fun build_location_line_loop :: "string list \<Rightarrow> string list \<Rightarrow> string list \<Rightarrow> error + string list" where
  "build_location_line_loop split_ids [] temp_list = Inr temp_list"
| "build_location_line_loop split_ids (key # keys) temp_list =
     (case py_int key of
        Inl e \<Rightarrow> Inl e
      | Inr k \<Rightarrow>
          if int (length split_ids) - 1 \<ge> k
          then (case py_index split_ids k of
                  Inl e \<Rightarrow> Inl e
                | Inr segment \<Rightarrow> build_location_line_loop split_ids keys (temp_list @ [segment]))
          else build_location_line_loop split_ids keys temp_list)"

definition build_location_line :: "string list \<Rightarrow> string list \<Rightarrow> string \<Rightarrow> error + string" where
  "build_location_line split_ids keys delimiter =
     (case build_location_line_loop split_ids keys [] of
        Inl e \<Rightarrow> Inl e
      | Inr temp_list \<Rightarrow> Inr (py_join delimiter temp_list))"

subsection \<open>DynamoDB items and Python dictionaries\<close>

text \<open>
  A dictionary is an association list read with \<open>map_of\<close>. A DynamoDB attribute value is a
  dictionary with one entry, the type descriptor and the value: \<^verbatim>\<open>{"S": "DEFAULT"}\<close> is
  \<open>AttrS ''DEFAULT''\<close>. An item is a dictionary of attribute values.
\<close>

datatype attribute_value = AttrS string | AttrN string | AttrBOOL bool | AttrNULL

type_synonym item = "(string \<times> attribute_value) list"

definition subscript :: "(string \<times> 'v) list \<Rightarrow> string \<Rightarrow> error + 'v" where
  "subscript d k = (case map_of d k of None \<Rightarrow> Inl (KeyError k) | Some v \<Rightarrow> Inr v)"

text \<open>\<^verbatim>\<open>item[k]["S"]\<close> raises \<^verbatim>\<open>KeyError\<close> when either key is missing.\<close>

definition subscript_S :: "item \<Rightarrow> string \<Rightarrow> error + string" where
  "subscript_S d k =
     (case subscript d k of
        Inl e \<Rightarrow> Inl e
      | Inr (AttrS s) \<Rightarrow> Inr s
      | Inr _ \<Rightarrow> Inl (KeyError ''S''))"

text \<open>\<^verbatim>\<open>item.get(k, {}).get("S", default)\<close> never raises.\<close>

definition get_S :: "item \<Rightarrow> string \<Rightarrow> string \<Rightarrow> string" where
  "get_S d k dflt = (case map_of d k of Some (AttrS s) \<Rightarrow> s | _ \<Rightarrow> dflt)"

text \<open>
  The boto3 client is a parameter. \<^verbatim>\<open>dynamodb.get_item\<close> maps a request to the \<^verbatim>\<open>Item\<close> entry
  of its response, \<open>None\<close> when the response has none; \<^verbatim>\<open>dynamodb.scan\<close> maps a request to a
  response with its \<^verbatim>\<open>Items\<close> and, on all pages but the last, a \<^verbatim>\<open>LastEvaluatedKey\<close>.
\<close>

record get_item_request =
  get_TableName :: string
  get_Key :: item
  get_ProjectionExpression :: "string option"

record scan_request =
  scan_TableName :: string
  scan_Select :: string
  scan_ProjectionExpression :: string
  scan_FilterExpression :: string
  scan_ExpressionAttributeNames :: "(string \<times> string) list"
  scan_ExpressionAttributeValues :: item
  scan_ExclusiveStartKey :: "item option"

record scan_response =
  Items :: "item list"
  LastEvaluatedKey :: "item option"

subsection \<open>\<^verbatim>\<open>get_medata\<close>\<close>

definition config_item_request :: "string \<Rightarrow> get_item_request" where
  "config_item_request CONFIG_TABLE =
     \<lparr>get_TableName = CONFIG_TABLE,
      get_Key = [(''id'', AttrS ''DEFAULT''), (''type'', AttrS ''MESSAGE_FORMAT'')],
      get_ProjectionExpression = Some ''msgFormatDataAliasDelimiter''\<rparr>"

definition ui_reference_item_request :: "string \<Rightarrow> get_item_request" where
  "ui_reference_item_request UI_REFERENCE_TABLE =
     \<lparr>get_TableName = UI_REFERENCE_TABLE,
      get_Key = [(''id'', AttrS ''DEFAULT''), (''type'', AttrS ''UI_REFERENCE_MAPPING'')],
      get_ProjectionExpression = Some ''uiReferenceMappingLocationKeys,uiReferenceMappingLineKeys''\<rparr>"

text \<open>\<^verbatim>\<open>response.get("Item", {})\<close>\<close>

definition get_Item :: "item option \<Rightarrow> item" where
  "get_Item response = (case response of None \<Rightarrow> [] | Some i \<Rightarrow> i)"

definition get_medata ::
  "string \<Rightarrow> string \<Rightarrow> (get_item_request \<Rightarrow> item option) \<Rightarrow> error + (string \<times> string \<times> string)" where
  "get_medata CONFIG_TABLE UI_REFERENCE_TABLE get_item =
     (let config_item = get_Item (get_item (config_item_request CONFIG_TABLE))
      in if config_item = []
         then Inl (ItemNotFoundException (''Item does not exist in '' @ CONFIG_TABLE @ ''.''))
         else
           (case subscript_S config_item ''msgFormatDataAliasDelimiter'' of
              Inl e \<Rightarrow> Inl e
            | Inr delimiter \<Rightarrow>
                (let ui_reference_item = get_Item (get_item (ui_reference_item_request UI_REFERENCE_TABLE))
                 in if ui_reference_item \<noteq> []
                    then
                      (case subscript_S ui_reference_item ''uiReferenceMappingLocationKeys'' of
                         Inl e \<Rightarrow> Inl e
                       | Inr location_keys \<Rightarrow>
                           (case subscript_S ui_reference_item ''uiReferenceMappingLineKeys'' of
                              Inl e \<Rightarrow> Inl e
                            | Inr line_keys \<Rightarrow> Inr (delimiter, location_keys, line_keys)))
                    else Inr (delimiter, [], []))))"

text \<open>
  Lines 249 to 255 of \<^verbatim>\<open>main\<close>, the same for the location keys and the line keys:
  \<^verbatim>\<open>split_location_keys = []; if location_keys: split_location_keys = location_keys.split("/")\<close>.
\<close>

definition split_keys :: "string \<Rightarrow> error + string list" where
  "split_keys keys = (if keys \<noteq> [] then py_split keys ''/'' else Inr [])"

subsection \<open>\<^verbatim>\<open>scan_ui_reference_table\<close> and \<^verbatim>\<open>scan_config_table\<close>\<close>

text \<open>
  \<^verbatim>\<open>while response.get("LastEvaluatedKey", None)\<close> tests the truth value of the entry: a
  missing key and an empty dictionary both end the loop.
\<close>

definition truthy :: "item option \<Rightarrow> bool" where
  "truthy k = (case k of None \<Rightarrow> False | Some d \<Rightarrow> d \<noteq> [])"

text \<open>
  The \<^verbatim>\<open>while\<close> loop of both functions. \<open>request\<close> is the request of the first call,
  \<open>response\<close> the latest response and \<open>scan_items\<close> the items collected so far. DynamoDB may
  return a key for ever, so the loop is a partial function: \<open>None\<close> is a loop that does
  not end.
\<close>

partial_function (option) scan_loop ::
  "(scan_request \<Rightarrow> scan_response) \<Rightarrow> scan_request \<Rightarrow> scan_response \<Rightarrow> item list \<Rightarrow> item list option" where
  "scan_loop scan request response scan_items =
     (if truthy (LastEvaluatedKey response)
      then scan_loop scan request
             (scan (request\<lparr>scan_ExclusiveStartKey := LastEvaluatedKey response\<rparr>))
             (scan_items @ Items (scan (request\<lparr>scan_ExclusiveStartKey := LastEvaluatedKey response\<rparr>)))
      else Some scan_items)"

definition FILTER_EXPRESSION :: string where
  "FILTER_EXPRESSION = ''#type = :type''"

definition TYPE_EXPRESSION_ATTRIBUTE_NAME :: string where
  "TYPE_EXPRESSION_ATTRIBUTE_NAME = ''#type''"

definition TYPE_EXPRESSION_ATTRIBUTE_VALUE :: string where
  "TYPE_EXPRESSION_ATTRIBUTE_VALUE = '':type''"

definition ui_reference_scan_request :: "string \<Rightarrow> scan_request" where
  "ui_reference_scan_request UI_REFERENCE_TABLE =
     \<lparr>scan_TableName = UI_REFERENCE_TABLE,
      scan_Select = ''SPECIFIC_ATTRIBUTES'',
      scan_ProjectionExpression = ''#id,#name'',
      scan_FilterExpression = FILTER_EXPRESSION,
      scan_ExpressionAttributeNames =
        [(''#id'', ''id''), (''#name'', ''name''), (TYPE_EXPRESSION_ATTRIBUTE_NAME, ''type'')],
      scan_ExpressionAttributeValues = [(TYPE_EXPRESSION_ATTRIBUTE_VALUE, AttrS ''MACHINE'')],
      scan_ExclusiveStartKey = None\<rparr>"

definition config_scan_request :: "string \<Rightarrow> scan_request" where
  "config_scan_request CONFIG_TABLE =
     \<lparr>scan_TableName = CONFIG_TABLE,
      scan_Select = ''SPECIFIC_ATTRIBUTES'',
      scan_ProjectionExpression = ''#id,machineStatusTagName,machineStatusDownValue'',
      scan_FilterExpression = FILTER_EXPRESSION,
      scan_ExpressionAttributeNames = [(''#id'', ''id''), (TYPE_EXPRESSION_ATTRIBUTE_NAME, ''type'')],
      scan_ExpressionAttributeValues = [(TYPE_EXPRESSION_ATTRIBUTE_VALUE, AttrS ''MACHINE_CONFIG'')],
      scan_ExclusiveStartKey = None\<rparr>"

definition scan_ui_reference_table ::
  "string \<Rightarrow> (scan_request \<Rightarrow> scan_response) \<Rightarrow> item list option" where
  "scan_ui_reference_table UI_REFERENCE_TABLE scan =
     scan_loop scan (ui_reference_scan_request UI_REFERENCE_TABLE)
       (scan (ui_reference_scan_request UI_REFERENCE_TABLE))
       (Items (scan (ui_reference_scan_request UI_REFERENCE_TABLE)))"

definition scan_config_table ::
  "string \<Rightarrow> (scan_request \<Rightarrow> scan_response) \<Rightarrow> item list option" where
  "scan_config_table CONFIG_TABLE scan =
     scan_loop scan (config_scan_request CONFIG_TABLE)
       (scan (config_scan_request CONFIG_TABLE))
       (Items (scan (config_scan_request CONFIG_TABLE)))"

text \<open>
  The pages of a scan, for comparison with the loops: \<open>scan_pages scan request response pages\<close>
  says that \<open>pages\<close> are the responses from \<open>response\<close> on, each page but the last carrying
  the key that the next request passes as \<^verbatim>\<open>ExclusiveStartKey\<close>, and the last carrying none.
\<close>

inductive scan_pages ::
  "(scan_request \<Rightarrow> scan_response) \<Rightarrow> scan_request \<Rightarrow> scan_response \<Rightarrow> scan_response list \<Rightarrow> bool" where
  last_page: "\<not> truthy (LastEvaluatedKey response) \<Longrightarrow> scan_pages scan request response [response]"
| next_page: "truthy (LastEvaluatedKey response) \<Longrightarrow>
     scan_pages scan request (scan (request\<lparr>scan_ExclusiveStartKey := LastEvaluatedKey response\<rparr>)) pages \<Longrightarrow>
     scan_pages scan request response (response # pages)"

subsection \<open>\<^verbatim>\<open>get_quicksight_manifest\<close>\<close>

text \<open>The manifest is a JSON document; a JSON object is a dictionary.\<close>

datatype json =
    JString string
  | JBool bool
  | JArray "json list"
  | JObject "(string \<times> json) list"

definition json_get :: "json \<Rightarrow> string \<Rightarrow> json option" where
  "json_get j k = (case j of JObject d \<Rightarrow> map_of d k | _ \<Rightarrow> None)"

definition get_quicksight_manifest :: "string \<Rightarrow> string \<Rightarrow> string \<Rightarrow> json" where
  "get_quicksight_manifest OUTPUT_BUCKET CSV_PREFIX file_name =
     JObject
       [(''fileLocations'',
           JArray [JObject [(''URIs'',
             JArray [JString (''s3://'' @ OUTPUT_BUCKET @ ''/'' @ CSV_PREFIX @ ''/'' @ file_name)])]]),
        (''globalUploadSettings'',
           JObject
             [(''format'', JString ''CSV''),
              (''delimiter'', JString '',''),
              (''textqualifier'', JString [CHR 0x27]),
              (''containsHeader'', JString ''true'')])]"

text \<open>
  The document of the specification, for comparison: the key \<open>textQualifier\<close> and the
  boolean \<open>true\<close>.
\<close>

definition spec_manifest :: "string \<Rightarrow> json" where
  "spec_manifest outputPath =
     JObject
       [(''fileLocations'', JArray [JObject [(''URIs'', JArray [JString outputPath])]]),
        (''globalUploadSettings'',
           JObject
             [(''format'', JString ''CSV''),
              (''delimiter'', JString '',''),
              (''textQualifier'', JString [CHR 0x27]),
              (''containsHeader'', JBool True)])]"

subsection \<open>The CSV bodies built by \<^verbatim>\<open>main\<close>\<close>

text \<open>
  \<^verbatim>\<open>f"\n'{a}','{b}','{c}'"\<close> and \<^verbatim>\<open>f"\n'{a}','{b}','{c}','{d}'"\<close>: a line feed, then the
  values in single quotes, separated by commas.
\<close>

definition quoted :: "string \<Rightarrow> string" where
  "quoted s = [CHR 0x27] @ s @ [CHR 0x27]"

definition csv_line :: "string list \<Rightarrow> string" where
  "csv_line values = [CHR 0x0A] @ py_join '','' (map quoted values)"

text \<open>
  Lines 257 to 264: the loop over the scanned machine items, \<open>reference_csv_body\<close> being
  the body built so far.
\<close>

fun reference_csv_loop ::
  "string \<Rightarrow> string list \<Rightarrow> string list \<Rightarrow> item list \<Rightarrow> string \<Rightarrow> error + string" where
  "reference_csv_loop delimiter split_location_keys split_line_keys [] reference_csv_body =
     Inr reference_csv_body"
| "reference_csv_loop delimiter split_location_keys split_line_keys (item # items) reference_csv_body =
     (case subscript_S item ''id'' of
        Inl e \<Rightarrow> Inl e
      | Inr machine_id \<Rightarrow>
          (case py_split machine_id delimiter of
             Inl e \<Rightarrow> Inl e
           | Inr split_ids \<Rightarrow>
               (case build_location_line split_ids split_location_keys delimiter of
                  Inl e \<Rightarrow> Inl e
                | Inr location \<Rightarrow>
                    (case build_location_line split_ids split_line_keys delimiter of
                       Inl e \<Rightarrow> Inl e
                     | Inr line \<Rightarrow>
                         reference_csv_loop delimiter split_location_keys split_line_keys items
                           (reference_csv_body @
                            csv_line [machine_id, get_S item ''name'' machine_id, location, line])))))"

text \<open>
  Lines 293 and 294: the inner loop over the pieces of the down value.
\<close>

fun config_csv_values :: "string \<Rightarrow> string \<Rightarrow> string list \<Rightarrow> string \<Rightarrow> string" where
  "config_csv_values machine_id status_tag [] config_csv_body = config_csv_body"
| "config_csv_values machine_id status_tag (val # vals) config_csv_body =
     config_csv_values machine_id status_tag vals
       (config_csv_body @ csv_line [machine_id, status_tag, py_strip val])"

text \<open>
  Lines 287 to 294: the loop over the scanned config items.
\<close>

fun config_csv_loop :: "item list \<Rightarrow> string \<Rightarrow> error + string" where
  "config_csv_loop [] config_csv_body = Inr config_csv_body"
| "config_csv_loop (item # items) config_csv_body =
     (case subscript_S item ''id'' of
        Inl e \<Rightarrow> Inl e
      | Inr machine_id \<Rightarrow>
          (case py_split (get_S item ''machineStatusDownValue'' []) '','' of
             Inl e \<Rightarrow> Inl e
           | Inr split_down_values \<Rightarrow>
               config_csv_loop items
                 (config_csv_values machine_id (get_S item ''machineStatusTagName'' [])
                    split_down_values config_csv_body)))"

text \<open>
  The config table of the specification, for comparison: a ConfigRecord is the triple of
  id, status tag and down value, and every item gives one record for each piece of its
  down value, split on the comma and trimmed.
\<close>

definition pieces :: "string \<Rightarrow> string list" where
  "pieces down_value = map py_strip (split_from '','' [] down_value)"

definition buildConfigTable :: "(string \<times> string \<times> string) list \<Rightarrow> (string \<times> string \<times> string) list" where
  "buildConfigTable items =
     concat (map (\<lambda>(machine_id, status_tag, down_value).
                    map (\<lambda>piece. (machine_id, status_tag, piece)) (pieces down_value)) items)"

section \<open>\<^verbatim>\<open>convert_parquet.py\<close>\<close>

subsection \<open>Messages and the library functions\<close>

text \<open>
  A field of a message is a string or a value of another type (\<open>'a\<close>: numbers, booleans,
  \<^verbatim>\<open>None\<close>, nested data). A message is a dictionary of fields, and an input record is a
  dictionary whose entries are lists of messages.
\<close>

datatype 'a pyval = PStr string | POther 'a

type_synonym 'a message = "(string \<times> 'a pyval) list"

type_synonym 'a envelope = "(string \<times> 'a message list) list"

text \<open>
  The functions the script imports are parameters: \<^verbatim>\<open>dateutil.parser.parse\<close>, which
  returns a datetime (\<open>'dt\<close>) or raises, \<^verbatim>\<open>datetime.strftime\<close>, and \<^verbatim>\<open>str\<close> on a value
  that is not a string.
\<close>

record ('a, 'dt) library =
  parser_parse :: "'a pyval \<Rightarrow> error + 'dt"
  strftime :: "'dt \<Rightarrow> string \<Rightarrow> string"
  str_other :: "'a \<Rightarrow> string"

definition py_str :: "('a, 'dt) library \<Rightarrow> 'a pyval \<Rightarrow> string" where
  "py_str lib v = (case v of PStr s \<Rightarrow> s | POther a \<Rightarrow> str_other lib a)"

text \<open>
  The module's global variables, which \<^verbatim>\<open>main\<close> sets from the dictionary that
  \<^verbatim>\<open>get_metadata\<close> returns.
\<close>

record metadata =
  Delimiter :: string
  MessagesKeyName :: string
  MessageAliasKeyName :: string
  MessageQualityKeyName :: string
  MessageTimestampKeyName :: string
  MessageValueKeyName :: string

text \<open>The dictionary \<^verbatim>\<open>data\<close> of \<^verbatim>\<open>convert_data_format\<close>, with its five keys.\<close>

record 'a data =
  data_id :: string
  data_tag :: string
  data_timestamp :: string
  data_quality :: "'a pyval"
  data_value :: string

subsection \<open>\<^verbatim>\<open>convert_data_format\<close>\<close>

text \<open>
  The body of the loop, lines 122 to 132, for one message. \<^verbatim>\<open>name.split\<close> exists only on a
  string. The entries of \<^verbatim>\<open>data\<close> are evaluated in the order they are written.
\<close>

definition convert_message ::
  "metadata \<Rightarrow> ('a, 'dt) library \<Rightarrow> 'a message \<Rightarrow> error + 'a data" where
  "convert_message md lib message =
     (case subscript message (MessageAliasKeyName md) of
        Inl e \<Rightarrow> Inl e
      | Inr name \<Rightarrow>
     (case (case name of
              PStr s \<Rightarrow> decomposeMessageAlias (Delimiter md) s
            | POther _ \<Rightarrow> Inl AttributeError) of
        Inl e \<Rightarrow> Inl e
      | Inr (joined_ids, tag) \<Rightarrow>
     (case subscript message (MessageTimestampKeyName md) of
        Inl e \<Rightarrow> Inl e
      | Inr timestamp \<Rightarrow>
     (case parser_parse lib timestamp of
        Inl e \<Rightarrow> Inl e
      | Inr parsed \<Rightarrow>
     (case subscript message (MessageQualityKeyName md) of
        Inl e \<Rightarrow> Inl e
      | Inr quality \<Rightarrow>
     (case subscript message (MessageValueKeyName md) of
        Inl e \<Rightarrow> Inl e
      | Inr v \<Rightarrow>
          Inr \<lparr>data_id = joined_ids,
               data_tag = tag,
               data_timestamp = strftime lib parsed ''%Y/%m/%d %H:%M:%S.%f'',
               data_quality = quality,
               data_value = py_str lib v\<rparr>))))))"

fun convert_data_format_loop ::
  "metadata \<Rightarrow> ('a, 'dt) library \<Rightarrow> 'a message list \<Rightarrow> 'a data list \<Rightarrow> error + 'a data list" where
  "convert_data_format_loop md lib [] return_messages = Inr return_messages"
| "convert_data_format_loop md lib (message # messages) return_messages =
     (case convert_message md lib message of
        Inl e \<Rightarrow> Inl e
      | Inr data \<Rightarrow> convert_data_format_loop md lib messages (return_messages @ [data]))"

text \<open>
  The result stands for the dictionary \<^verbatim>\<open>{ "messages": return_messages }\<close>.
\<close>

definition convert_data_format ::
  "metadata \<Rightarrow> ('a, 'dt) library \<Rightarrow> 'a envelope \<Rightarrow> error + 'a data list" where
  "convert_data_format md lib record =
     (case subscript record (MessagesKeyName md) of
        Inl e \<Rightarrow> Inl e
      | Inr messages \<Rightarrow> convert_data_format_loop md lib messages [])"

subsection \<open>\<^verbatim>\<open>get_metadata\<close>\<close>

definition message_format_request :: "string \<Rightarrow> get_item_request" where
  "message_format_request CONFIG_TABLE =
     \<lparr>get_TableName = CONFIG_TABLE,
      get_Key = [(''id'', AttrS ''DEFAULT''), (''type'', AttrS ''MESSAGE_FORMAT'')],
      get_ProjectionExpression = None\<rparr>"

definition get_metadata ::
  "string \<Rightarrow> (get_item_request \<Rightarrow> item option) \<Rightarrow> error + metadata" where
  "get_metadata CONFIG_TABLE get_item =
     (let config_item = get_Item (get_item (message_format_request CONFIG_TABLE))
      in if config_item = []
         then Inl (ItemNotFoundException (''Item does not exist in '' @ CONFIG_TABLE @ ''.''))
         else
     (case subscript_S config_item ''msgFormatDataAliasDelimiter'' of
        Inl e \<Rightarrow> Inl e
      | Inr d \<Rightarrow>
     (case subscript_S config_item ''msgFormatDataMessagesKeyName'' of
        Inl e \<Rightarrow> Inl e
      | Inr m \<Rightarrow>
     (case subscript_S config_item ''msgFormatDataMessageAliasKeyName'' of
        Inl e \<Rightarrow> Inl e
      | Inr a \<Rightarrow>
     (case subscript_S config_item ''msgFormatDataMessageQualityKeyName'' of
        Inl e \<Rightarrow> Inl e
      | Inr q \<Rightarrow>
     (case subscript_S config_item ''msgFormatDataMessageTimestampKeyName'' of
        Inl e \<Rightarrow> Inl e
      | Inr t \<Rightarrow>
     (case subscript_S config_item ''msgFormatDataMessageValueKeyName'' of
        Inl e \<Rightarrow> Inl e
      | Inr v \<Rightarrow>
          Inr \<lparr>Delimiter = d, MessagesKeyName = m, MessageAliasKeyName = a,
               MessageQualityKeyName = q, MessageTimestampKeyName = t,
               MessageValueKeyName = v\<rparr>)))))))"

subsection \<open>The services the job calls\<close>

text \<open>
  The state outside the script: the objects in S3 as pairs of bucket and key, the JSON
  records Glue reads under a path, the DynamoDB \<^verbatim>\<open>get_item\<close> answers, the frames the job
  has written, the number of bookmark commits, and the calls made so far, in order.
\<close>

datatype call =
    ListObjectsV2 string string
  | CreateDynamicFrame string
  | GetItem get_item_request
  | MapApply
  | WriteDynamicFrame string
  | JobCommit

record 'a world =
  s3_objects :: "(string \<times> string) list"
  json_frames :: "string \<Rightarrow> 'a envelope list"
  dynamodb_get_item :: "get_item_request \<Rightarrow> item option"
  written :: "(string \<times> 'a data list) list"
  commits :: nat
  calls :: "call list"

text \<open>
  \<^verbatim>\<open>s3.list_objects_v2(Bucket, Prefix)\<close> returns at most 1000 keys of the bucket that start
  with the prefix; \<^verbatim>\<open>KeyCount\<close> is the number of keys returned. The call reads only.
\<close>

definition list_objects_v2_KeyCount :: "'a world \<Rightarrow> string \<Rightarrow> string \<Rightarrow> nat" where
  "list_objects_v2_KeyCount w Bucket Prefix =
     min 1000 (length (filter (\<lambda>(b, k). b = Bucket \<and> startswith Prefix k) (s3_objects w)))"

definition log_call :: "call \<Rightarrow> 'a world \<Rightarrow> 'a world" where
  "log_call c w = w\<lparr>calls := calls w @ [c]\<rparr>"

subsection \<open>\<^verbatim>\<open>has_new_s3_data\<close> and \<^verbatim>\<open>main\<close>\<close>

definition has_new_s3_data :: "string \<Rightarrow> string \<Rightarrow> 'a world \<Rightarrow> bool \<times> 'a world" where
  "has_new_s3_data INPUT_BUCKET PARTITION w =
     (list_objects_v2_KeyCount w INPUT_BUCKET PARTITION > 0,
      log_call (ListObjectsV2 INPUT_BUCKET PARTITION) w)"

text \<open>The command line arguments of the job and the partition computed at start.\<close>

record job_args =
  CONFIG_TABLE :: string
  INPUT_BUCKET :: string
  OUTPUT_BUCKET :: string
  PARTITION :: string

text \<open>
  \<^verbatim>\<open>main\<close>. \<^verbatim>\<open>Map.apply\<close> belongs to the execution engine and is a parameter: it applies
  the conversion to the records of the frame and gives the converted records or fails.
  \<^verbatim>\<open>explode\<close> flattens the lists of messages into one sequence of rows.
\<close>

definition main ::
  "job_args \<Rightarrow> ('a, 'dt) library \<Rightarrow>
   (('a envelope \<Rightarrow> error + 'a data list) \<Rightarrow> 'a envelope list \<Rightarrow> error + 'a data list list) \<Rightarrow>
   'a world \<Rightarrow> (error + unit) \<times> 'a world" where
  "main args lib Map_apply w =
     (case has_new_s3_data (INPUT_BUCKET args) (PARTITION args) w of
        (True, w1) \<Rightarrow>
          (let input_path = ''s3://'' @ INPUT_BUCKET args @ ''/'' @ PARTITION args @ ''/'';
               raw_json_data = json_frames w1 input_path;
               w2 = log_call (CreateDynamicFrame input_path) w1;
               w3 = log_call (GetItem (message_format_request (CONFIG_TABLE args))) w2
           in case get_metadata (CONFIG_TABLE args) (dynamodb_get_item w2) of
                Inl e \<Rightarrow> (Inl e, w3)
              | Inr md \<Rightarrow>
                  (let w4 = log_call MapApply w3
                   in case Map_apply (convert_data_format md lib) raw_json_data of
                        Inl e \<Rightarrow> (Inl e, w4)
                      | Inr converted_json_data \<Rightarrow>
                          (let mapped_data = concat converted_json_data;
                               output_path = ''s3://'' @ OUTPUT_BUCKET args @ ''/'' @ PARTITION args @ ''/'';
                               w5 = log_call (WriteDynamicFrame output_path)
                                      (w4\<lparr>written := written w4 @ [(output_path, mapped_data)]\<rparr>);
                               w6 = log_call JobCommit (w5\<lparr>commits := commits w5 + 1\<rparr>)
                           in (Inr (), w6))))
      | (False, w1) \<Rightarrow>
          (Inl (NoNewDataException (''No new data for '' @ PARTITION args @ '' partition.'')), w1))"

subsection \<open>Example data\<close>

text \<open>
  A scan of three pages: two items and a key, no item and a key, one item and no key.
\<close>

definition three_page_scan :: "scan_request \<Rightarrow> scan_response" where
  "three_page_scan request =
     (case scan_ExclusiveStartKey request of
        None \<Rightarrow> \<lparr>Items = [[(''id'', AttrS ''m1'')], [(''id'', AttrS ''m2'')]],
                 LastEvaluatedKey = Some [(''id'', AttrS ''m2'')]\<rparr>
      | Some k \<Rightarrow>
          if k = [(''id'', AttrS ''m2'')]
          then \<lparr>Items = [], LastEvaluatedKey = Some [(''id'', AttrS ''m3'')]\<rparr>
          else \<lparr>Items = [[(''id'', AttrS ''m4'')]], LastEvaluatedKey = None\<rparr>)"

text \<open>
  Two DynamoDB stores: one without any item, and one whose config table \<open>config\<close> holds the
  message format item while the UI reference table holds nothing.
\<close>

definition empty_store :: "get_item_request \<Rightarrow> item option" where
  "empty_store request = None"

definition config_only_store :: "get_item_request \<Rightarrow> item option" where
  "config_only_store request =
     (if get_TableName request = ''config''
      then Some [(''msgFormatDataAliasDelimiter'', AttrS ''/'')]
      else None)"

text \<open>
  A message format, a library that parses one timestamp and prints it in the canonical
  format, and an input record with two messages; the fields that are not strings are
  natural numbers here.
\<close>

definition example_metadata :: metadata where
  "example_metadata =
     \<lparr>Delimiter = ''/'', MessagesKeyName = ''messages'', MessageAliasKeyName = ''name'',
      MessageQualityKeyName = ''quality'', MessageTimestampKeyName = ''timestamp'',
      MessageValueKeyName = ''value''\<rparr>"

definition example_library :: "(nat, string) library" where
  "example_library =
     \<lparr>parser_parse = (\<lambda>v. case v of
                            PStr s \<Rightarrow> if s = ''2021-01-02T03:04:05'' then Inr s else Inl ParserError
                          | POther _ \<Rightarrow> Inl TypeError),
      strftime = (\<lambda>dt fmt. if fmt = ''%Y/%m/%d %H:%M:%S.%f''
                            then ''2021/01/02 03:04:05.000000'' else []),
      str_other = (\<lambda>n. if n = 7 then ''7'' else ''0'')\<rparr>"

definition example_message :: "string \<Rightarrow> string \<Rightarrow> nat message" where
  "example_message name timestamp =
     [(''name'', PStr name), (''timestamp'', PStr timestamp),
      (''quality'', PStr ''GOOD''), (''value'', POther 7)]"

definition example_envelope :: "nat envelope" where
  "example_envelope =
     [(''messages'',
       [example_message ''PLANT/LINE3/MACH07/TEMP'' ''2021-01-02T03:04:05'',
        example_message ''PLANT/LINE3/MACH07/SPEED'' ''2021-01-02T03:04:05''])]"

definition bad_envelope :: "nat envelope" where
  "bad_envelope =
     [(''messages'',
       [example_message ''PLANT/LINE3/MACH07/TEMP'' ''2021-01-02T03:04:05'',
        example_message ''PLANT/LINE3/MACH07/SPEED'' ''yesterday''])]"

text \<open>
  The job arguments and a state of the services with the given objects in S3 and the given
  DynamoDB answers, before the job has run.
\<close>

definition example_args :: job_args where
  "example_args =
     \<lparr>CONFIG_TABLE = ''config'', INPUT_BUCKET = ''input'', OUTPUT_BUCKET = ''output'',
      PARTITION = ''2021/01/02''\<rparr>"

definition example_world ::
  "(string \<times> string) list \<Rightarrow> (get_item_request \<Rightarrow> item option) \<Rightarrow> nat world" where
  "example_world objects store =
     \<lparr>s3_objects = objects, json_frames = (\<lambda>path. [example_envelope]),
      dynamodb_get_item = store, written = [], commits = 0, calls = []\<rparr>"

section \<open>Properties of the string operations\<close>

lemma split_from_nonempty: "split_from sep acc s \<noteq> []"
  by (induction sep acc s rule: split_from.induct) auto

lemma py_join_Cons: "xs \<noteq> [] \<Longrightarrow> py_join sep (x # xs) = x @ sep @ py_join sep xs"
  by (cases xs) auto

lemma startswith_take_drop: "startswith sep s \<Longrightarrow> sep @ drop (length sep) s = s"
  unfolding startswith_def by (metis append_take_drop_id)

lemma py_join_split_from: "sep \<noteq> [] \<Longrightarrow> py_join sep (split_from sep acc s) = acc @ s"
proof (induction sep acc s rule: split_from.induct)
  case (1 sep acc)
  then show ?case by simp
next
  case (2 sep acc c cs)
  show ?case
  proof (cases "startswith sep (c # cs)")
    case True
    with 2 have "py_join sep (split_from sep [] (drop (length sep) (c # cs))) = drop (length sep) (c # cs)"
      by simp
    with True 2(3) show ?thesis
      using startswith_take_drop[OF True]
      by (simp add: py_join_Cons split_from_nonempty del: drop.simps)
  next
    case False
    with 2 show ?thesis by simp
  qed
qed

lemma py_join_snoc: "xs \<noteq> [] \<Longrightarrow> py_join sep (xs @ [y]) = py_join sep xs @ sep @ y"
proof (induction xs)
  case Nil
  then show ?case by simp
next
  case (Cons x xs)
  show ?case
  proof (cases "xs = []")
    case True
    then show ?thesis by simp
  next
    case False
    with Cons show ?thesis by (simp add: py_join_Cons)
  qed
qed

lemma py_join_butlast_last:
  assumes "2 \<le> length xs"
  shows "py_join sep (butlast xs) @ sep @ last xs = py_join sep xs"
proof -
  from assms have ne: "xs \<noteq> []" and bne: "butlast xs \<noteq> []"
    by (auto simp: butlast_conv_take)
  have "py_join sep (butlast xs @ [last xs]) = py_join sep (butlast xs) @ sep @ last xs"
    using bne by (rule py_join_snoc)
  with ne show ?thesis by simp
qed

lemma not_contains_split_from: "\<not> contains sep s \<Longrightarrow> split_from sep acc s = [acc @ s]"
  by (induction sep acc s rule: split_from.induct) auto

lemma contains_split_from_length:
  "sep \<noteq> [] \<Longrightarrow> contains sep s \<Longrightarrow> 2 \<le> length (split_from sep acc s)"
proof (induction sep acc s rule: split_from.induct)
  case (1 sep acc)
  then show ?case by simp
next
  case (2 sep acc c cs)
  show ?case
  proof (cases "startswith sep (c # cs)")
    case True
    have "1 \<le> length (split_from sep [] (drop (length sep) (c # cs)))"
      using split_from_nonempty[of sep "[]" "drop (length sep) (c # cs)"]
      by (simp add: Suc_leI)
    with True 2(3) show ?thesis by simp
  next
    case False
    with 2 show ?thesis by simp
  qed
qed


lemma overlap_border:
  assumes "startswith sep s" and "startswith sep (drop k s)"
  shows "drop k sep = take (length sep - k) sep"
proof -
  from assms have a: "take (length sep) s = sep" and b: "take (length sep) (drop k s) = sep"
    by (simp_all add: startswith_def)
  have "drop k sep = drop k (take (length sep) s)" using a by simp
  also have "\<dots> = take (length sep - k) (drop k s)" by (simp add: drop_take)
  also have "\<dots> = take (length sep - k) (take (length sep) (drop k s))" by (simp add: min_def)
  also have "\<dots> = take (length sep - k) sep" using b by simp
  finally show ?thesis .
qed

lemma no_self_overlap_gap:
  assumes "no_self_overlap sep" and "startswith sep s" and "1 \<le> k" and "k < length sep"
  shows "\<not> startswith sep (drop k s)"
proof
  assume "startswith sep (drop k s)"
  with assms(2) have "drop k sep = take (length sep - k) sep" by (rule overlap_border)
  moreover from assms have "drop k sep \<noteq> take (length sep - k) sep"
    by (simp add: no_self_overlap_def)
  ultimately show False by simp
qed

lemma substring_after_last_skip:
  assumes "\<forall>j. k \<le> j \<and> j < n \<longrightarrow> \<not> startswith sep (drop j s)" and "k \<le> n"
  shows "substring_after_last sep (drop k s) = substring_after_last sep (drop n s)"
  using assms
proof (induction "n - k" arbitrary: k)
  case 0
  then show ?case by simp
next
  case (Suc d)
  then have kn: "k < n" and nostart: "\<not> startswith sep (drop k s)" by auto
  have step: "substring_after_last sep (drop (Suc k) s) = substring_after_last sep (drop n s)"
    using Suc by (intro Suc(1)) auto
  show ?case
  proof (cases "k < length s")
    case True
    then have "drop k s = s ! k # drop (Suc k) s" by (simp add: Cons_nth_drop_Suc)
    with nostart step show ?thesis by (simp split: option.splits)
  next
    case False
    with kn show ?thesis by simp
  qed
qed

lemma substring_after_last_head:
  assumes "no_self_overlap sep" and "sep \<noteq> []" and "startswith sep s"
  shows "substring_after_last sep s =
         Some (case substring_after_last sep (drop (length sep) s) of
                 Some t \<Rightarrow> t | None \<Rightarrow> drop (length sep) s)"
proof (cases s)
  case Nil
  with assms show ?thesis by (simp add: startswith_def)
next
  case (Cons c cs)
  have "\<forall>j. 1 \<le> j \<and> j < length sep \<longrightarrow> \<not> startswith sep (drop j s)"
    using assms no_self_overlap_gap by blast
  moreover have "1 \<le> length sep" using assms(2) by (simp add: Suc_leI)
  ultimately have "substring_after_last sep (drop 1 s) = substring_after_last sep (drop (length sep) s)"
    by (rule substring_after_last_skip)
  with Cons assms(3) show ?thesis by (simp split: option.splits)
qed

lemma last_split_from:
  assumes "no_self_overlap sep" and "sep \<noteq> []"
  shows "last (split_from sep acc s) =
         (case substring_after_last sep s of Some t \<Rightarrow> t | None \<Rightarrow> acc @ s)"
  using assms
proof (induction sep acc s rule: split_from.induct)
  case (1 sep acc)
  then show ?case by simp
next
  case (2 sep acc c cs)
  show ?case
  proof (cases "startswith sep (c # cs)")
    case True
    have "last (split_from sep acc (c # cs)) = last (split_from sep [] (drop (length sep) (c # cs)))"
      using True 2(4) by (simp add: split_from_nonempty del: drop.simps)
    also have "\<dots> = (case substring_after_last sep (drop (length sep) (c # cs)) of
                        Some t \<Rightarrow> t | None \<Rightarrow> drop (length sep) (c # cs))"
      using True 2 by (simp split: option.splits)
    finally show ?thesis
      using substring_after_last_head[OF 2(3) 2(4) True] by simp
  next
    case False
    with 2 show ?thesis by (simp split: option.splits)
  qed
qed

lemma contains_substring_after_last:
  "contains sep s \<longleftrightarrow> substring_after_last sep s \<noteq> None"
  by (induction sep s rule: contains.induct) (auto split: option.splits)

lemma contains_iff_startswith:
  "contains sep s \<longleftrightarrow> (\<exists>i \<le> length s. startswith sep (drop i s))"
proof (induction sep s rule: contains.induct)
  case (1 sep)
  then show ?case by (auto simp: startswith_def)
next
  case (2 sep c cs)
  show ?case
  proof
    assume "contains sep (c # cs)"
    then consider "startswith sep (c # cs)" | "contains sep cs" by auto
    then show "\<exists>i \<le> length (c # cs). startswith sep (drop i (c # cs))"
    proof cases
      case 1
      then have "startswith sep (drop 0 (c # cs))" by simp
      then show ?thesis by blast
    next
      case 2
      with "2.IH" obtain i where "i \<le> length cs" "startswith sep (drop i cs)" by auto
      then have "Suc i \<le> length (c # cs)" "startswith sep (drop (Suc i) (c # cs))" by auto
      then show ?thesis by blast
    qed
  next
    assume "\<exists>i \<le> length (c # cs). startswith sep (drop i (c # cs))"
    then obtain i where i: "i \<le> length (c # cs)" "startswith sep (drop i (c # cs))" by auto
    show "contains sep (c # cs)"
    proof (cases i)
      case 0
      with i show ?thesis by simp
    next
      case (Suc j)
      with i have "j \<le> length cs" "startswith sep (drop j cs)" by auto
      with "2.IH" show ?thesis by auto
    qed
  qed
qed

lemma last_split_from_no_sep:
  assumes "sep \<noteq> []" and "\<forall>i < length acc. \<not> startswith sep (drop i (acc @ s))"
  shows "\<not> contains sep (last (split_from sep acc s))"
  using assms
proof (induction sep acc s rule: split_from.induct)
  case (1 sep acc)
  show ?case
  proof
    assume "contains sep (last (split_from sep acc []))"
    then obtain i where i: "i \<le> length acc" "startswith sep (drop i acc)"
      by (auto simp: contains_iff_startswith)
    show False
    proof (cases "i < length acc")
      case True
      with 1 i show False by simp
    next
      case False
      with i have "drop i acc = []" by simp
      with i 1 show False by (simp add: startswith_def)
    qed
  qed
next
  case (2 sep acc c cs)
  show ?case
  proof (cases "startswith sep (c # cs)")
    case True
    have "\<not> contains sep (last (split_from sep [] (drop (length sep) (c # cs))))"
      using True 2 by simp
    with True 2(3) show ?thesis by (simp add: split_from_nonempty del: drop.simps)
  next
    case False
    have "\<forall>i < length (acc @ [c]). \<not> startswith sep (drop i ((acc @ [c]) @ cs))"
    proof (intro allI impI)
      fix i assume "i < length (acc @ [c])"
      then consider "i < length acc" | "i = length acc" by fastforce
      then show "\<not> startswith sep (drop i ((acc @ [c]) @ cs))"
      proof cases
        case 1
        with 2(4) show ?thesis by simp
      next
        case 2
        with False show ?thesis by simp
      qed
    qed
    with False 2 show ?thesis by simp
  qed
qed

text \<open>
  Claim C1, as amended. For every alias and every non-empty delimiter the alias handling
  returns without raising; the tag is the last segment of \<^verbatim>\<open>alias.split(delimiter)\<close> and
  contains no delimiter, the id is the other segments rejoined with the delimiter; for an
  alias containing the delimiter, id + delimiter + tag is the alias again; for an alias
  without the delimiter the id is empty and the tag is the alias. When the delimiter
  cannot overlap itself (every delimiter of one character), the tag is the substring after
  the last occurrence of the delimiter in the alias.
\<close>

theorem decomposeMessageAlias_last_segment:
  assumes "delimiter \<noteq> []"
  shows "\<exists>segments idPath tag.
           py_split alias delimiter = Inr (segments @ [tag])
         \<and> idPath = py_join delimiter segments
         \<and> decomposeMessageAlias delimiter alias = Inr (idPath, tag)
         \<and> \<not> contains delimiter tag
         \<and> (contains delimiter alias \<longrightarrow> idPath @ delimiter @ tag = alias)
         \<and> (\<not> contains delimiter alias \<longrightarrow> idPath = [] \<and> tag = alias)
         \<and> (no_self_overlap delimiter \<longrightarrow> contains delimiter alias \<longrightarrow>
              substring_after_last delimiter alias = Some tag)"
proof -
  define ids where "ids = split_from delimiter [] alias"
  have ne: "ids \<noteq> []" by (simp add: ids_def split_from_nonempty)
  then have snoc: "ids = butlast ids @ [last ids]" by simp
  have split: "py_split alias delimiter = Inr (butlast ids @ [last ids])"
    using assms snoc by (simp add: py_split_def ids_def)
  have dec: "decomposeMessageAlias delimiter alias =
             Inr (py_join delimiter (butlast ids), last ids)"
    using assms ne by (simp add: decomposeMessageAlias_def py_split_def py_pop_def ids_def
        split: list.splits)
  have notag: "\<not> contains delimiter (last ids)"
    unfolding ids_def using assms by (intro last_split_from_no_sep) simp_all
  have rt: "py_join delimiter (butlast ids) @ delimiter @ last ids = alias"
    if "contains delimiter alias"
  proof -
    from that assms have "2 \<le> length ids"
      unfolding ids_def by (intro contains_split_from_length)
    then have "py_join delimiter (butlast ids) @ delimiter @ last ids = py_join delimiter ids"
      by (rule py_join_butlast_last)
    also have "\<dots> = alias" using assms by (simp add: ids_def py_join_split_from)
    finally show ?thesis .
  qed
  have none: "py_join delimiter (butlast ids) = [] \<and> last ids = alias"
    if "\<not> contains delimiter alias"
    using that by (simp add: ids_def not_contains_split_from)
  have lastocc: "substring_after_last delimiter alias = Some (last ids)"
    if "no_self_overlap delimiter" "contains delimiter alias"
    using that assms last_split_from[of delimiter "[]" "alias"]
    by (auto simp: ids_def contains_substring_after_last)
  from split dec notag rt none lastocc show ?thesis by blast
qed

text \<open>
  The theorem at the alias \<open>PLANT/LINE3/MACH07/TEMP\<close> of the specification and at the
  alias \<open>TEMP\<close>, delimiter \<open>/\<close>.
\<close>

theorem decomposeMessageAlias_last_segment_witness:
  "''/'' \<noteq> [] \<and> no_self_overlap ''/'' \<and> contains ''/'' ''PLANT/LINE3/MACH07/TEMP''
   \<and> decomposeMessageAlias ''/'' ''PLANT/LINE3/MACH07/TEMP'' = Inr (''PLANT/LINE3/MACH07'', ''TEMP'')
   \<and> substring_after_last ''/'' ''PLANT/LINE3/MACH07/TEMP'' = Some ''TEMP''
   \<and> \<not> contains ''/'' ''TEMP''
   \<and> decomposeMessageAlias ''/'' ''TEMP'' = Inr ([], ''TEMP'')"
proof -
  have d: "''/'' \<noteq> []" by simp
  have o: "no_self_overlap ''/''" by (simp add: no_self_overlap_def)
  have c: "contains ''/'' ''PLANT/LINE3/MACH07/TEMP''" by (simp add: startswith_def)
  have e: "decomposeMessageAlias ''/'' ''PLANT/LINE3/MACH07/TEMP'' = Inr (''PLANT/LINE3/MACH07'', ''TEMP'')"
    by (simp add: decomposeMessageAlias_def py_split_def py_pop_def startswith_def)
  obtain idPath tag where
    r: "decomposeMessageAlias ''/'' ''PLANT/LINE3/MACH07/TEMP'' = Inr (idPath, tag)" and
    l: "no_self_overlap ''/'' \<longrightarrow> contains ''/'' ''PLANT/LINE3/MACH07/TEMP'' \<longrightarrow>
          substring_after_last ''/'' ''PLANT/LINE3/MACH07/TEMP'' = Some tag"
    using decomposeMessageAlias_last_segment [OF d, of "''PLANT/LINE3/MACH07/TEMP''"] by blast
  from r e have "tag = ''TEMP''" by (simp only: sum.inject prod.inject)
  with l o c have s: "substring_after_last ''/'' ''PLANT/LINE3/MACH07/TEMP'' = Some ''TEMP''"
    by (simp only:)
  have n: "\<not> contains ''/'' ''TEMP''" by (simp add: startswith_def)
  obtain idPath' tag' where
    r': "decomposeMessageAlias ''/'' ''TEMP'' = Inr (idPath', tag')" and
    l': "\<not> contains ''/'' ''TEMP'' \<longrightarrow> idPath' = [] \<and> tag' = ''TEMP''"
    using decomposeMessageAlias_last_segment [OF d, of "''TEMP''"] by blast
  from l' n have "idPath' = []" and "tag' = ''TEMP''" by blast+
  with r' have t: "decomposeMessageAlias ''/'' ''TEMP'' = Inr ([], ''TEMP'')"
    by (simp only:)
  from d o c e s n t show ?thesis by (intro conjI)
qed

text \<open>
  Claim C1 as stated fails for a delimiter that overlaps itself:
  \<^verbatim>\<open>"aaa".split("aa")\<close> is \<^verbatim>\<open>['', 'a']\<close>, so the tag is \<open>a\<close>, while the last occurrence of
  \<open>aa\<close> in \<open>aaa\<close> starts at index 1 and nothing follows it.
\<close>

theorem decomposeMessageAlias_overlap_counterexample:
  "''aa'' \<noteq> [] \<and> contains ''aa'' ''aaa''
   \<and> decomposeMessageAlias ''aa'' ''aaa'' = Inr ([], ''a'')
   \<and> substring_after_last ''aa'' ''aaa'' = Some []"
  by (simp add: decomposeMessageAlias_def py_split_def py_pop_def startswith_def)

section \<open>Properties of \<^verbatim>\<open>build_location_line\<close>\<close>

lemma build_location_line_loop_in_range:
  assumes "map py_int keys = map Inr positions"
      and "\<forall>p \<in> set positions. - int (length split_ids) \<le> p"
  shows "build_location_line_loop split_ids keys temp_list =
         Inr (temp_list @
              map (\<lambda>p. split_ids ! nat (if p < 0 then int (length split_ids) + p else p))
                  (filter (\<lambda>p. p < int (length split_ids)) positions))"
  using assms
proof (induction keys arbitrary: positions temp_list)
  case Nil
  then show ?case by simp
next
  case (Cons key keys)
  then obtain p ps where ps: "positions = p # ps" "py_int key = Inr p" "map py_int keys = map Inr ps"
    by (cases positions) auto
  with Cons.prems have lo: "- int (length split_ids) \<le> p" and rest: "\<forall>q \<in> set ps. - int (length split_ids) \<le> q"
    by auto
  note IH = Cons.IH [OF ps(3) rest]
  show ?case
  proof (cases "p < int (length split_ids)")
    case True
    with lo have "py_index split_ids p =
        Inr (split_ids ! nat (if p < 0 then int (length split_ids) + p else p))"
      by (auto simp: py_index_def)
    with True ps IH show ?thesis by simp
  next
    case False
    with ps IH show ?thesis by simp
  qed
qed

lemma build_location_line_loop_below_range:
  assumes "map py_int keys = map Inr positions"
      and "\<exists>p \<in> set positions. p < - int (length split_ids)"
  shows "build_location_line_loop split_ids keys temp_list = Inl IndexError"
  using assms
proof (induction keys arbitrary: positions temp_list)
  case Nil
  then show ?case by simp
next
  case (Cons key keys)
  then obtain p ps where ps: "positions = p # ps" "py_int key = Inr p" "map py_int keys = map Inr ps"
    by (cases positions) auto
  show ?case
  proof (cases "p < - int (length split_ids)")
    case True
    then have "py_index split_ids p = Inl IndexError" by (simp add: py_index_def)
    with True ps show ?thesis by simp
  next
    case False
    with Cons.prems ps have "\<exists>q \<in> set ps. q < - int (length split_ids)" by auto
    note IH = Cons.IH [OF ps(3) this]
    show ?thesis
    proof (cases "p < int (length split_ids)")
      case True
      with False have "py_index split_ids p =
          Inr (split_ids ! nat (if p < 0 then int (length split_ids) + p else p))"
        by (auto simp: py_index_def)
      with True ps IH show ?thesis by simp
    next
      case False
      with ps IH show ?thesis by simp
    qed
  qed
qed

text \<open>
  Claim C2. Let \<open>segments\<close> be the identifier split on a (necessarily non-empty) delimiter and
  let the keys read, by \<^verbatim>\<open>int\<close>, as non-negative positions. Then \<^verbatim>\<open>build_location_line\<close> does
  not raise and returns the join, in the order of the position list, of \<open>segments[p]\<close> for
  exactly the positions \<open>p\<close> below the number of segments; the number of selected segments
  is the number of such positions, at most the number of keys.
\<close>

theorem build_location_line_selects:
  assumes "py_split identifier delimiter = Inr segments"
      and "map py_int keys = map Inr positions"
      and "\<forall>p \<in> set positions. 0 \<le> p"
  shows "delimiter \<noteq> []
       \<and> build_location_line_loop segments keys [] =
           Inr (map (\<lambda>p. segments ! nat p) (filter (\<lambda>p. p < int (length segments)) positions))
       \<and> build_location_line segments keys delimiter =
           Inr (py_join delimiter
                  (map (\<lambda>p. segments ! nat p) (filter (\<lambda>p. p < int (length segments)) positions)))
       \<and> length (map (\<lambda>p. segments ! nat p) (filter (\<lambda>p. p < int (length segments)) positions))
           = length (filter (\<lambda>p. p < int (length segments)) positions)
       \<and> length (filter (\<lambda>p. p < int (length segments)) positions) \<le> length keys"
proof -
  from assms(1) have d: "delimiter \<noteq> []" by (auto simp: py_split_def split: if_splits)
  from assms(3) have lo: "\<forall>p \<in> set positions. - int (length segments) \<le> p" by auto
  have eq: "map (\<lambda>p. segments ! nat (if p < 0 then int (length segments) + p else p))
              (filter (\<lambda>p. p < int (length segments)) positions) =
            map (\<lambda>p. segments ! nat p) (filter (\<lambda>p. p < int (length segments)) positions)"
    using assms(3) by (intro map_cong) auto
  have loop: "build_location_line_loop segments keys [] =
           Inr (map (\<lambda>p. segments ! nat p) (filter (\<lambda>p. p < int (length segments)) positions))"
    using build_location_line_loop_in_range [OF assms(2) lo, of "[]"] eq by simp
  then have "build_location_line segments keys delimiter =
           Inr (py_join delimiter
                  (map (\<lambda>p. segments ! nat p) (filter (\<lambda>p. p < int (length segments)) positions)))"
    by (simp add: build_location_line_def)
  moreover have "length (filter (\<lambda>p. p < int (length segments)) positions) \<le> length keys"
    using length_filter_le [of "\<lambda>p. p < int (length segments)" positions]
      arg_cong [OF assms(2), of length] by simp
  ultimately show ?thesis using d loop by simp
qed

lemma split_example: "py_split ''PLANT/LINE3/MACH07'' ''/'' = Inr [''PLANT'', ''LINE3'', ''MACH07'']"
  by (simp add: py_split_def startswith_def)

lemma py_int_examples:
  "py_int ''0'' = Inr 0" "py_int ''1'' = Inr 1" "py_int ''7'' = Inr 7"
  "py_int ''-1'' = Inr (- 1)" "py_int ''-3'' = Inr (- 3)" "py_int ''-4'' = Inr (- 4)"
  by (simp_all add: py_int_def int_isspace_def int_max_str_digits_def isdigit_def digit_value_def)

text \<open>
  The theorem at \<open>PLANT/LINE3/MACH07\<close> with the positions 0, 7 and 1: position 7 is skipped.
  A key that \<^verbatim>\<open>int\<close> does not read, here the digit 1 behind the separator character 28, is
  outside the theorem: the call raises \<^verbatim>\<open>ValueError\<close>.
\<close>

theorem build_location_line_selects_witness:
  "py_split ''PLANT/LINE3/MACH07'' ''/'' = Inr [''PLANT'', ''LINE3'', ''MACH07'']
   \<and> map py_int [''0'', ''7'', ''1''] = map Inr [0, 7, 1]
   \<and> (0 :: int) \<le> 0 \<and> (0 :: int) \<le> 7 \<and> (0 :: int) \<le> 1
   \<and> build_location_line [''PLANT'', ''LINE3'', ''MACH07''] [''0'', ''7'', ''1''] ''/'' = Inr ''PLANT/LINE3''
   \<and> py_int [CHR 0x1C, CHR ''1''] = Inl ValueError
   \<and> build_location_line [''PLANT'', ''LINE3'', ''MACH07''] [[CHR 0x1C, CHR ''1'']] ''/'' =
       Inl ValueError"
proof -
  have a: "py_split ''PLANT/LINE3/MACH07'' ''/'' = Inr [''PLANT'', ''LINE3'', ''MACH07'']"
    by (rule split_example)
  have b: "map py_int [''0'', ''7'', ''1''] = map Inr [0, 7, 1]"
    by (simp add: py_int_examples)
  have c: "\<forall>p \<in> set [0, 7, 1 :: int]. 0 \<le> p" by simp
  from build_location_line_selects [OF a b c]
  have "build_location_line [''PLANT'', ''LINE3'', ''MACH07''] [''0'', ''7'', ''1''] ''/'' = Inr ''PLANT/LINE3''"
    by simp
  moreover have "py_int [CHR 0x1C, CHR ''1''] = Inl ValueError"
    by (simp add: py_int_def int_isspace_def int_max_str_digits_def isdigit_def digit_value_def)
  moreover from this
  have "build_location_line [''PLANT'', ''LINE3'', ''MACH07''] [[CHR 0x1C, CHR ''1'']] ''/'' =
       Inl ValueError"
    by (simp add: build_location_line_def)
  ultimately show ?thesis using a b by simp
qed

text \<open>
  Claim C9. The guard \<^verbatim>\<open>len(split_ids) - 1 >= int(key)\<close> lets every negative position pass.
  When every position is at least \<open>-len(segments)\<close>, a negative position \<open>k\<close> is not skipped
  (it satisfies the filter \<open>k < len(segments)\<close>) and contributes the segment at index
  \<open>len(segments) + k\<close>; when some position is below \<open>-len(segments)\<close>, the indexing raises
  \<^verbatim>\<open>IndexError\<close>.
\<close>

theorem build_location_line_negative_positions:
  assumes "map py_int keys = map Inr positions"
  shows "((\<forall>p \<in> set positions. - int (length segments) \<le> p) \<longrightarrow>
            build_location_line segments keys delimiter =
              Inr (py_join delimiter
                     (map (\<lambda>p. segments ! nat (if p < 0 then int (length segments) + p else p))
                          (filter (\<lambda>p. p < int (length segments)) positions))))
       \<and> ((\<exists>p \<in> set positions. p < - int (length segments)) \<longrightarrow>
            build_location_line segments keys delimiter = Inl IndexError)"
proof (intro conjI impI)
  assume "\<forall>p \<in> set positions. - int (length segments) \<le> p"
  from build_location_line_loop_in_range [OF assms this, of "[]"]
  show "build_location_line segments keys delimiter =
              Inr (py_join delimiter
                     (map (\<lambda>p. segments ! nat (if p < 0 then int (length segments) + p else p))
                          (filter (\<lambda>p. p < int (length segments)) positions)))"
    by (simp add: build_location_line_def)
next
  assume "\<exists>p \<in> set positions. p < - int (length segments)"
  from build_location_line_loop_below_range [OF assms this, of "[]"]
  show "build_location_line segments keys delimiter = Inl IndexError"
    by (simp add: build_location_line_def)
qed

text \<open>
  The theorem at the segments of \<open>PLANT/LINE3/MACH07\<close>: positions -1 and -3 select the last
  and the first segment, and position -4 raises. The key -1 behind the separator
  character 28 is no integer for \<^verbatim>\<open>int\<close>, and the call raises \<^verbatim>\<open>ValueError\<close>.
\<close>

theorem build_location_line_negative_positions_witness:
  "map py_int [''-1'', ''-3''] = map Inr [- 1, - 3]
   \<and> - int (length [''PLANT'', ''LINE3'', ''MACH07'']) \<le> - 1
   \<and> - int (length [''PLANT'', ''LINE3'', ''MACH07'']) \<le> - 3
   \<and> build_location_line [''PLANT'', ''LINE3'', ''MACH07''] [''-1'', ''-3''] ''/'' = Inr ''MACH07/PLANT''
   \<and> map py_int [''0'', ''-4''] = map Inr [0, - 4]
   \<and> - 4 < - int (length [''PLANT'', ''LINE3'', ''MACH07''])
   \<and> build_location_line [''PLANT'', ''LINE3'', ''MACH07''] [''0'', ''-4''] ''/'' = Inl IndexError
   \<and> py_int [CHR 0x1C, CHR ''-'', CHR ''1''] = Inl ValueError
   \<and> build_location_line [''PLANT'', ''LINE3'', ''MACH07''] [[CHR 0x1C, CHR ''-'', CHR ''1'']] ''/'' =
       Inl ValueError"
proof -
  have a: "map py_int [''-1'', ''-3''] = map Inr [- 1, - 3]" by (simp add: py_int_examples)
  have b: "\<forall>p \<in> set [- 1, - 3 :: int]. - int (length [''PLANT'', ''LINE3'', ''MACH07'']) \<le> p"
    by simp
  from build_location_line_negative_positions [OF a, of "[''PLANT'', ''LINE3'', ''MACH07'']" "''/''"] b
  have c: "build_location_line [''PLANT'', ''LINE3'', ''MACH07''] [''-1'', ''-3''] ''/'' = Inr ''MACH07/PLANT''"
    by simp
  have d: "map py_int [''0'', ''-4''] = map Inr [0, - 4]" by (simp add: py_int_examples)
  have e: "\<exists>p \<in> set [0, - 4 :: int]. p < - int (length [''PLANT'', ''LINE3'', ''MACH07''])"
    by simp
  from build_location_line_negative_positions [OF d, of "[''PLANT'', ''LINE3'', ''MACH07'']" "''/''"] e
  have f: "build_location_line [''PLANT'', ''LINE3'', ''MACH07''] [''0'', ''-4''] ''/'' = Inl IndexError"
    by simp
  have g: "py_int [CHR 0x1C, CHR ''-'', CHR ''1''] = Inl ValueError"
    by (simp add: py_int_def int_isspace_def int_max_str_digits_def isdigit_def digit_value_def)
  then have h: "build_location_line [''PLANT'', ''LINE3'', ''MACH07'']
                  [[CHR 0x1C, CHR ''-'', CHR ''1'']] ''/'' = Inl ValueError"
    by (simp add: build_location_line_def)
  from a c d f g h show ?thesis by simp
qed

section \<open>Properties of the scan loops\<close>

lemma scan_pages_hd:
  "scan_pages scan request response pages \<Longrightarrow> pages = response # tl pages"
  by (induction rule: scan_pages.induct) auto

lemma scan_loop_pages:
  "scan_pages scan request response pages \<Longrightarrow>
   scan_loop scan request response scan_items = Some (scan_items @ concat (map Items (tl pages)))"
proof (induction arbitrary: scan_items rule: scan_pages.induct)
  case (last_page response scan request)
  then show ?case by (subst scan_loop.simps) simp
next
  case (next_page response scan request pages)
  let ?next = "scan (request\<lparr>scan_ExclusiveStartKey := LastEvaluatedKey response\<rparr>)"
  from next_page.hyps(2) have "pages = ?next # tl pages" by (rule scan_pages_hd)
  then have "concat (map Items pages) = Items ?next @ concat (map Items (tl pages))"
    by (metis concat.simps(2) list.simps(9))
  moreover have "scan_loop scan request response scan_items =
                 scan_loop scan request ?next (scan_items @ Items ?next)"
    using next_page.hyps(1) by (subst scan_loop.simps) simp
  ultimately show ?case using next_page.IH [of "scan_items @ Items ?next"] by simp
qed

lemma scan_loop_returns:
  "scan_loop scan request response scan_items = Some result \<Longrightarrow>
   \<exists>pages. scan_pages scan request response pages \<and>
           result = scan_items @ concat (map Items (tl pages))"
proof (induction scan request response scan_items result rule: scan_loop.raw_induct [rotated 1, consumes 1])
  case (1 loop scan request response scan_items result)
  let ?next = "scan (request\<lparr>scan_ExclusiveStartKey := LastEvaluatedKey response\<rparr>)"
  show ?case
  proof (cases "truthy (LastEvaluatedKey response)")
    case True
    with 1(2) have a: "loop scan request ?next (scan_items @ Items ?next) = Some result" by simp
    from 1(1) [OF a] obtain pages where
      p: "scan_pages scan request ?next pages"
         "result = (scan_items @ Items ?next) @ concat (map Items (tl pages))" by blast
    from p(1) have "pages = ?next # tl pages" by (rule scan_pages_hd)
    then have "concat (map Items pages) = Items ?next @ concat (map Items (tl pages))"
      by (metis concat.simps(2) list.simps(9))
    with p(2) have "result = scan_items @ concat (map Items (tl (response # pages)))" by simp
    moreover from True p(1) have "scan_pages scan request response (response # pages)"
      by (rule scan_pages.next_page)
    ultimately show ?thesis by blast
  next
    case False
    with 1(2) have "result = scan_items" by simp
    moreover from False have "scan_pages scan request response [response]"
      by (rule scan_pages.last_page)
    ultimately show ?thesis by fastforce
  qed
qed

lemma scan_from_first_page:
  assumes "scan_pages scan request (scan request) pages"
  shows "scan_loop scan request (scan request) (Items (scan request)) = Some (concat (map Items pages))"
proof -
  from assms have "pages = scan request # tl pages" by (rule scan_pages_hd)
  then have "concat (map Items pages) = Items (scan request) @ concat (map Items (tl pages))"
    by (metis concat.simps(2) list.simps(9))
  with scan_loop_pages [OF assms, of "Items (scan request)"] show ?thesis by simp
qed

lemma scan_from_first_page_returns:
  assumes "scan_loop scan request (scan request) (Items (scan request)) = Some result"
  shows "\<exists>pages. scan_pages scan request (scan request) pages \<and> result = concat (map Items pages)"
proof -
  from scan_loop_returns [OF assms] obtain pages where
    p: "scan_pages scan request (scan request) pages"
       "result = Items (scan request) @ concat (map Items (tl pages))" by blast
  from p(1) have "pages = scan request # tl pages" by (rule scan_pages_hd)
  then have "concat (map Items pages) = Items (scan request) @ concat (map Items (tl pages))"
    by (metis concat.simps(2) list.simps(9))
  with p show ?thesis by auto
qed

text \<open>
  Claim C4. When the responses of DynamoDB from the first request on form the pages
  \<open>pages\<close> (every page but the last returns a key, which the next request passes on, and the
  last returns none), \<^verbatim>\<open>scan_ui_reference_table\<close> and \<^verbatim>\<open>scan_config_table\<close> return the
  concatenation of the item lists of the pages, in page order and then the order inside the
  page, so the number of items is the sum of the page sizes. Conversely a loop that returns
  has read such a sequence of pages and returns their concatenation: the loop goes on
  exactly while the latest page carried a key.
\<close>

theorem scan_tables_concatenate_pages:
  "(scan_pages scan (ui_reference_scan_request ui_table) (scan (ui_reference_scan_request ui_table)) pages
      \<longrightarrow> scan_ui_reference_table ui_table scan = Some (concat (map Items pages))
        \<and> length (concat (map Items pages)) = sum_list (map (\<lambda>page. length (Items page)) pages))
 \<and> (scan_pages scan (config_scan_request config_table) (scan (config_scan_request config_table)) pages
      \<longrightarrow> scan_config_table config_table scan = Some (concat (map Items pages))
        \<and> length (concat (map Items pages)) = sum_list (map (\<lambda>page. length (Items page)) pages))
 \<and> (scan_ui_reference_table ui_table scan = Some result
      \<longrightarrow> (\<exists>ps. scan_pages scan (ui_reference_scan_request ui_table)
                  (scan (ui_reference_scan_request ui_table)) ps
                \<and> result = concat (map Items ps)))
 \<and> (scan_config_table config_table scan = Some result
      \<longrightarrow> (\<exists>ps. scan_pages scan (config_scan_request config_table)
                  (scan (config_scan_request config_table)) ps
                \<and> result = concat (map Items ps)))"
proof -
  have len: "length (concat (map Items pages)) = sum_list (map (\<lambda>page. length (Items page)) pages)"
    by (simp add: length_concat comp_def)
  show ?thesis
    unfolding scan_ui_reference_table_def scan_config_table_def
    using len scan_from_first_page scan_from_first_page_returns by blast
qed


lemma three_page_scan_pages:
  assumes "scan_ExclusiveStartKey request = None"
  shows "scan_pages three_page_scan request (three_page_scan request)
           [\<lparr>Items = [[(''id'', AttrS ''m1'')], [(''id'', AttrS ''m2'')]],
              LastEvaluatedKey = Some [(''id'', AttrS ''m2'')]\<rparr>,
            \<lparr>Items = [], LastEvaluatedKey = Some [(''id'', AttrS ''m3'')]\<rparr>,
            \<lparr>Items = [[(''id'', AttrS ''m4'')]], LastEvaluatedKey = None\<rparr>]"
proof -
  let ?p1 = "\<lparr>Items = [[(''id'', AttrS ''m1'')], [(''id'', AttrS ''m2'')]],
              LastEvaluatedKey = Some [(''id'', AttrS ''m2'')]\<rparr>"
  let ?p2 = "\<lparr>Items = [], LastEvaluatedKey = Some [(''id'', AttrS ''m3'')]\<rparr>"
  let ?p3 = "\<lparr>Items = [[(''id'', AttrS ''m4'')]], LastEvaluatedKey = None\<rparr>"
  have e1: "three_page_scan request = ?p1"
    using assms by (simp add: three_page_scan_def)
  have e2: "three_page_scan (request\<lparr>scan_ExclusiveStartKey := LastEvaluatedKey ?p1\<rparr>) = ?p2"
    by (simp add: three_page_scan_def)
  have e3: "three_page_scan (request\<lparr>scan_ExclusiveStartKey := LastEvaluatedKey ?p2\<rparr>) = ?p3"
    by (simp add: three_page_scan_def)
  have "scan_pages three_page_scan request ?p3 [?p3]"
    by (rule scan_pages.last_page) (simp add: truthy_def)
  with e3 have "scan_pages three_page_scan request ?p2 [?p2, ?p3]"
    by (intro scan_pages.next_page) (simp_all add: truthy_def)
  with e2 have "scan_pages three_page_scan request ?p1 [?p1, ?p2, ?p3]"
    by (intro scan_pages.next_page) (simp_all add: truthy_def)
  with e1 show ?thesis by simp
qed

text \<open>
  The theorem at a scan of three pages with two, no and one item.
\<close>

theorem scan_tables_concatenate_pages_witness:
  "scan_pages three_page_scan (ui_reference_scan_request ''ui'')
     (three_page_scan (ui_reference_scan_request ''ui''))
     [\<lparr>Items = [[(''id'', AttrS ''m1'')], [(''id'', AttrS ''m2'')]],
        LastEvaluatedKey = Some [(''id'', AttrS ''m2'')]\<rparr>,
      \<lparr>Items = [], LastEvaluatedKey = Some [(''id'', AttrS ''m3'')]\<rparr>,
      \<lparr>Items = [[(''id'', AttrS ''m4'')]], LastEvaluatedKey = None\<rparr>]
   \<and> scan_ui_reference_table ''ui'' three_page_scan =
       Some [[(''id'', AttrS ''m1'')], [(''id'', AttrS ''m2'')], [(''id'', AttrS ''m4'')]]
   \<and> scan_pages three_page_scan (config_scan_request ''config'')
     (three_page_scan (config_scan_request ''config''))
     [\<lparr>Items = [[(''id'', AttrS ''m1'')], [(''id'', AttrS ''m2'')]],
        LastEvaluatedKey = Some [(''id'', AttrS ''m2'')]\<rparr>,
      \<lparr>Items = [], LastEvaluatedKey = Some [(''id'', AttrS ''m3'')]\<rparr>,
      \<lparr>Items = [[(''id'', AttrS ''m4'')]], LastEvaluatedKey = None\<rparr>]
   \<and> scan_config_table ''config'' three_page_scan =
       Some [[(''id'', AttrS ''m1'')], [(''id'', AttrS ''m2'')], [(''id'', AttrS ''m4'')]]"
proof -
  let ?pages = "[\<lparr>Items = [[(''id'', AttrS ''m1'')], [(''id'', AttrS ''m2'')]],
                  LastEvaluatedKey = Some [(''id'', AttrS ''m2'')]\<rparr>,
                \<lparr>Items = [], LastEvaluatedKey = Some [(''id'', AttrS ''m3'')]\<rparr>,
                \<lparr>Items = [[(''id'', AttrS ''m4'')]], LastEvaluatedKey = None\<rparr>]"
  have u: "scan_pages three_page_scan (ui_reference_scan_request ''ui'')
             (three_page_scan (ui_reference_scan_request ''ui'')) ?pages"
    by (rule three_page_scan_pages) (simp add: ui_reference_scan_request_def)
  have c: "scan_pages three_page_scan (config_scan_request ''config'')
             (three_page_scan (config_scan_request ''config'')) ?pages"
    by (rule three_page_scan_pages) (simp add: config_scan_request_def)
  note inst = scan_tables_concatenate_pages
    [of three_page_scan "''ui''" "?pages" "''config''"]
  from inst u have ur: "scan_ui_reference_table ''ui'' three_page_scan = Some (concat (map Items ?pages))"
    by blast
  from inst c have cr: "scan_config_table ''config'' three_page_scan = Some (concat (map Items ?pages))"
    by blast
  from u ur c cr show ?thesis by simp
qed

section \<open>Properties of the metadata lookup\<close>

lemma contains_infix: "contains sep (a @ sep @ b)"
proof -
  have "startswith sep (drop (length a) (a @ sep @ b))" by (simp add: startswith_def)
  moreover have "length a \<le> length (a @ sep @ b)" by simp
  ultimately show ?thesis unfolding contains_iff_startswith by blast
qed

text \<open>
  Claim C5. When DynamoDB has no message format item (the response has no \<^verbatim>\<open>Item\<close>, or an
  empty one), \<^verbatim>\<open>get_medata\<close> of \<^verbatim>\<open>configuration.py\<close> and \<^verbatim>\<open>get_metadata\<close> of
  \<^verbatim>\<open>convert_parquet.py\<close> raise \<^verbatim>\<open>ItemNotFoundException\<close> with a message that contains the name
  of the config table, and return nothing. When the config item holds the delimiter and
  only the UI reference item is missing, \<^verbatim>\<open>get_medata\<close> returns the delimiter with empty
  location and line keys; \<^verbatim>\<open>main\<close> turns the empty keys into empty position lists, and
  \<^verbatim>\<open>build_location_line\<close> on an empty list gives the empty string without raising.
\<close>

theorem config_item_required_reference_item_optional:
  "(get_Item (get_item (config_item_request config_table)) = [] \<longrightarrow>
      get_medata config_table ui_table get_item =
        Inl (ItemNotFoundException (''Item does not exist in '' @ config_table @ ''.''))
    \<and> contains config_table (''Item does not exist in '' @ config_table @ ''.''))
 \<and> (get_Item (get_item (message_format_request config_table)) = [] \<longrightarrow>
      get_metadata config_table get_item =
        Inl (ItemNotFoundException (''Item does not exist in '' @ config_table @ ''.'')))
 \<and> (subscript_S (get_Item (get_item (config_item_request config_table)))
        ''msgFormatDataAliasDelimiter'' = Inr delimiter \<longrightarrow>
    get_Item (get_item (ui_reference_item_request ui_table)) = [] \<longrightarrow>
      get_medata config_table ui_table get_item = Inr (delimiter, [], [])
    \<and> split_keys [] = Inr []
    \<and> build_location_line split_ids [] delimiter = Inr [])"
proof (intro conjI impI)
  assume "get_Item (get_item (config_item_request config_table)) = []"
  then show "get_medata config_table ui_table get_item =
        Inl (ItemNotFoundException (''Item does not exist in '' @ config_table @ ''.''))"
    by (simp add: get_medata_def)
next
  show "contains config_table (''Item does not exist in '' @ config_table @ ''.'')"
    by (rule contains_infix)
next
  assume "get_Item (get_item (message_format_request config_table)) = []"
  then show "get_metadata config_table get_item =
        Inl (ItemNotFoundException (''Item does not exist in '' @ config_table @ ''.''))"
    by (simp add: get_metadata_def)
next
  assume d: "subscript_S (get_Item (get_item (config_item_request config_table)))
        ''msgFormatDataAliasDelimiter'' = Inr delimiter"
    and u: "get_Item (get_item (ui_reference_item_request ui_table)) = []"
  from d have "get_Item (get_item (config_item_request config_table)) \<noteq> []"
    by (auto simp: subscript_S_def subscript_def)
  with d u show "get_medata config_table ui_table get_item = Inr (delimiter, [], [])"
    by (simp add: get_medata_def)
next
  show "split_keys [] = Inr []" by (simp add: split_keys_def)
next
  show "build_location_line split_ids [] delimiter = Inr []"
    by (simp add: build_location_line_def)
qed

text \<open>
  The theorem at a store without items and at a store that holds only the config item.
\<close>

theorem config_item_required_reference_item_optional_witness:
  "get_Item (empty_store (config_item_request ''config'')) = []
   \<and> get_medata ''config'' ''ui'' empty_store =
       Inl (ItemNotFoundException ''Item does not exist in config.'')
   \<and> get_Item (empty_store (message_format_request ''config'')) = []
   \<and> get_metadata ''config'' empty_store =
       Inl (ItemNotFoundException ''Item does not exist in config.'')
   \<and> subscript_S (get_Item (config_only_store (config_item_request ''config'')))
        ''msgFormatDataAliasDelimiter'' = Inr ''/''
   \<and> get_Item (config_only_store (ui_reference_item_request ''ui'')) = []
   \<and> get_medata ''config'' ''ui'' config_only_store = Inr (''/'', [], [])"
proof -
  have a: "get_Item (empty_store (config_item_request ''config'')) = []"
    by (simp add: get_Item_def empty_store_def)
  have b: "get_Item (empty_store (message_format_request ''config'')) = []"
    by (simp add: get_Item_def empty_store_def)
  have c: "subscript_S (get_Item (config_only_store (config_item_request ''config'')))
        ''msgFormatDataAliasDelimiter'' = Inr ''/''"
    by (simp add: subscript_S_def subscript_def get_Item_def config_only_store_def
        config_item_request_def)
  have d: "get_Item (config_only_store (ui_reference_item_request ''ui'')) = []"
    by (simp add: get_Item_def config_only_store_def ui_reference_item_request_def)
  note e = config_item_required_reference_item_optional
    [of empty_store "''config''" "''ui''" "''/''" "[]"]
  note f = config_item_required_reference_item_optional
    [of config_only_store "''config''" "''ui''" "''/''" "[]"]
  from e a have r1: "get_medata ''config'' ''ui'' empty_store =
       Inl (ItemNotFoundException ''Item does not exist in config.'')" by simp
  from e b have r2: "get_metadata ''config'' empty_store =
       Inl (ItemNotFoundException ''Item does not exist in config.'')" by simp
  from f c d have r3: "get_medata ''config'' ''ui'' config_only_store = Inr (''/'', [], [])"
    by blast
  from a b c d r1 r2 r3 show ?thesis by blast
qed

section \<open>Properties of the config table\<close>

lemma config_csv_values_append:
  "config_csv_values machine_id status_tag vals config_csv_body =
   config_csv_body @ concat (map (\<lambda>val. csv_line [machine_id, status_tag, py_strip val]) vals)"
  by (induction vals arbitrary: config_csv_body) simp_all

lemma length_split_from_single:
  "sep = [c] \<Longrightarrow> length (split_from sep acc s) = Suc (count_list s c)"
  by (induction sep acc s rule: split_from.induct) (auto simp: startswith_def)

lemma buildConfigTable_Cons:
  "buildConfigTable ((machine_id, status_tag, down_value) # items) =
   map (\<lambda>piece. (machine_id, status_tag, piece)) (pieces down_value) @ buildConfigTable items"
  by (simp add: buildConfigTable_def)

lemma config_csv_loop_records:
  assumes "map (\<lambda>item. subscript_S item ''id'') items = map Inr ids"
  shows "config_csv_loop items config_csv_body =
         Inr (config_csv_body @
              concat (map (\<lambda>(machine_id, status_tag, val). csv_line [machine_id, status_tag, val])
                (buildConfigTable
                   (map (\<lambda>(machine_id, item).
                           (machine_id, get_S item ''machineStatusTagName'' [],
                            get_S item ''machineStatusDownValue'' []))
                        (zip ids items)))))"
  using assms
proof (induction items arbitrary: ids config_csv_body)
  case Nil
  then show ?case by (simp add: buildConfigTable_def)
next
  case (Cons item items)
  then obtain i rest where ids: "ids = i # rest" "subscript_S item ''id'' = Inr i"
    "map (\<lambda>item. subscript_S item ''id'') items = map Inr rest"
    by (cases ids) auto
  show ?case
    using ids(1,2) Cons.IH [OF ids(3)]
    by (simp add: py_split_def config_csv_values_append buildConfigTable_Cons pieces_def comp_def)
qed

lemma csv_line_three:
  "csv_line [a, b, c] =
   [CHR 0x0A, CHR 0x27] @ a @ [CHR 0x27, CHR '','', CHR 0x27] @ b @
   [CHR 0x27, CHR '','', CHR 0x27] @ c @ [CHR 0x27]"
  by (simp add: csv_line_def quoted_def)

lemma set_split_from:
  "set (concat (split_from sep acc s)) \<subseteq> set acc \<union> set s"
proof (induction sep acc s rule: split_from.induct)
  case (1 sep acc)
  then show ?case by simp
next
  case (2 sep acc c cs)
  show ?case
  proof (cases "sep \<noteq> [] \<and> startswith sep (c # cs)")
    case True
    have "set (drop (length sep) (c # cs)) \<subseteq> set (c # cs)" by (rule set_drop_subset)
    with True 2(1) show ?thesis by (auto simp del: drop.simps)
  next
    case False
    with 2(2) show ?thesis by auto
  qed
qed

lemma set_py_strip: "set (py_strip s) \<subseteq> set s"
proof
  fix x assume "x \<in> set (py_strip s)"
  then have "x \<in> set (dropWhile isspace (rev (dropWhile isspace s)))"
    by (simp add: py_strip_def)
  then have "x \<in> set (rev (dropWhile isspace s))" by (rule set_dropWhileD)
  then have "x \<in> set (dropWhile isspace s)" by simp
  then show "x \<in> set s" by (rule set_dropWhileD)
qed

lemma count_list_concat_map:
  "count_list (concat (map f xs)) x = sum_list (map (\<lambda>y. count_list (f y) x) xs)"
  by (induction xs) simp_all

lemma count_line_feed_in_line:
  assumes "CHR 0x0A \<notin> set a" and "CHR 0x0A \<notin> set b" and "CHR 0x0A \<notin> set c"
  shows "count_list (csv_line [a, b, c]) (CHR 0x0A) = 1"
  using assms by (simp add: csv_line_three count_list_0_iff)

lemma config_csv_values_line_feeds:
  assumes "CHR 0x0A \<notin> set machine_id" and "CHR 0x0A \<notin> set status_tag"
      and "\<forall>val \<in> set vals. CHR 0x0A \<notin> set val"
  shows "count_list (config_csv_values machine_id status_tag vals config_csv_body) (CHR 0x0A) =
         count_list config_csv_body (CHR 0x0A) + length vals"
proof -
  have "count_list (csv_line [machine_id, status_tag, py_strip val]) (CHR 0x0A) = 1"
    if "val \<in> set vals" for val
  proof -
    from that assms(3) set_py_strip [of val] have "CHR 0x0A \<notin> set (py_strip val)" by blast
    with assms(1,2) show ?thesis by (rule count_line_feed_in_line)
  qed
  then have "map (\<lambda>val. count_list (csv_line [machine_id, status_tag, py_strip val]) (CHR 0x0A)) vals
             = map (\<lambda>val. 1) vals"
    by (intro map_cong) simp_all
  then have "sum_list (map (\<lambda>val. count_list (csv_line [machine_id, status_tag, py_strip val])
                (CHR 0x0A)) vals) = sum_list (map (\<lambda>val. 1) vals)"
    by (rule arg_cong)
  also have "\<dots> = length vals" by (induction vals) simp_all
  finally have "sum_list (map (\<lambda>val. count_list (csv_line [machine_id, status_tag, py_strip val])
                (CHR 0x0A)) vals) = length vals" .
  then show ?thesis
    by (simp add: config_csv_values_append count_list_concat_map)
qed

lemma config_csv_loop_single:
  "config_csv_loop
     [[(''id'', AttrS machine_id), (''machineStatusTagName'', AttrS status_tag),
       (''machineStatusDownValue'', AttrS down_value)]] config_csv_body =
   Inr (config_csv_values machine_id status_tag (split_from '','' [] down_value) config_csv_body)"
  by (simp add: subscript_S_def subscript_def get_S_def py_split_def)

text \<open>
  Claim C7. For scanned config items that all carry an id, the CSV body that \<^verbatim>\<open>main\<close>
  builds is the given body followed, for every record of \<open>buildConfigTable\<close> in order, by a
  line feed and the id, the status tag and the value of the record, each in single quotes
  and separated by commas; the status tag and the down value of an item default to the
  empty string. One item gives one record for every piece of its down value split on the
  comma, each piece trimmed, all with the id and status tag of the item, and the number of
  records is one more than the number of commas. For the down value \<open>10, 20,30\<close> the loop
  appends exactly the three lines with the values 10, 20 and 30, and for the empty down
  value exactly one line with the empty value. When id, status tag and down value hold no
  line feed, the loop adds as many lines to the body as the down value has pieces.
\<close>

theorem config_table_one_record_per_piece:
  "(map (\<lambda>item. subscript_S item ''id'') items = map Inr ids \<longrightarrow>
      config_csv_loop items config_csv_body =
        Inr (config_csv_body @
             concat (map (\<lambda>(machine_id, status_tag, val).
                            [CHR 0x0A, CHR 0x27] @ machine_id @ [CHR 0x27, CHR '','', CHR 0x27] @
                            status_tag @ [CHR 0x27, CHR '','', CHR 0x27] @ val @ [CHR 0x27])
               (buildConfigTable
                  (map (\<lambda>(machine_id, item).
                          (machine_id, get_S item ''machineStatusTagName'' [],
                           get_S item ''machineStatusDownValue'' []))
                       (zip ids items))))))
 \<and> buildConfigTable [(machine_id, status_tag, down_value)] =
       map (\<lambda>piece. (machine_id, status_tag, piece)) (map py_strip (split_from '','' [] down_value))
 \<and> length (buildConfigTable [(machine_id, status_tag, down_value)]) =
       Suc (count_list down_value (CHR '',''))
 \<and> buildConfigTable [(machine_id, status_tag, ''10, 20,30'')] =
       [(machine_id, status_tag, ''10''), (machine_id, status_tag, ''20''),
        (machine_id, status_tag, ''30'')]
 \<and> buildConfigTable [(machine_id, status_tag, [])] = [(machine_id, status_tag, [])]
 \<and> config_csv_loop
       [[(''id'', AttrS machine_id), (''machineStatusTagName'', AttrS status_tag),
          (''machineStatusDownValue'', AttrS ''10, 20,30'')]] config_csv_body =
       Inr (config_csv_body @
            ([CHR 0x0A, CHR 0x27] @ machine_id @ [CHR 0x27, CHR '','', CHR 0x27] @ status_tag @
               [CHR 0x27, CHR '','', CHR 0x27] @ ''10'' @ [CHR 0x27]) @
            ([CHR 0x0A, CHR 0x27] @ machine_id @ [CHR 0x27, CHR '','', CHR 0x27] @ status_tag @
               [CHR 0x27, CHR '','', CHR 0x27] @ ''20'' @ [CHR 0x27]) @
            ([CHR 0x0A, CHR 0x27] @ machine_id @ [CHR 0x27, CHR '','', CHR 0x27] @ status_tag @
               [CHR 0x27, CHR '','', CHR 0x27] @ ''30'' @ [CHR 0x27]))
 \<and> config_csv_loop
       [[(''id'', AttrS machine_id), (''machineStatusTagName'', AttrS status_tag),
          (''machineStatusDownValue'', AttrS [])]] config_csv_body =
       Inr (config_csv_body @
            ([CHR 0x0A, CHR 0x27] @ machine_id @ [CHR 0x27, CHR '','', CHR 0x27] @ status_tag @
               [CHR 0x27, CHR '','', CHR 0x27] @ [] @ [CHR 0x27]))
 \<and> (CHR 0x0A \<notin> set machine_id \<longrightarrow> CHR 0x0A \<notin> set status_tag \<longrightarrow> CHR 0x0A \<notin> set down_value \<longrightarrow>
      (\<exists>body. config_csv_loop
         [[(''id'', AttrS machine_id), (''machineStatusTagName'', AttrS status_tag),
          (''machineStatusDownValue'', AttrS down_value)]] config_csv_body = Inr body
       \<and> count_list body (CHR 0x0A) =
           count_list config_csv_body (CHR 0x0A) + Suc (count_list down_value (CHR '',''))))"
proof -
  have a: "buildConfigTable [(machine_id, status_tag, d)] =
       map (\<lambda>piece. (machine_id, status_tag, piece)) (map py_strip (split_from '','' [] d))" for d
    by (simp add: buildConfigTable_def pieces_def)
  have b: "length (buildConfigTable [(machine_id, status_tag, down_value)]) =
       Suc (count_list down_value (CHR '',''))"
    by (simp add: a length_split_from_single)
  have s3: "split_from '','' [] ''10, 20,30'' = [''10'', '' 20'', ''30'']"
    by (simp add: startswith_def)
  have s0: "split_from '','' [] [] = [[]]" by simp
  have st: "py_strip ''10'' = ''10''" "py_strip '' 20'' = ''20''" "py_strip ''30'' = ''30''"
    "py_strip [] = []"
    by (simp_all add: py_strip_def isspace_def)
  have e: "buildConfigTable [(machine_id, status_tag, ''10, 20,30'')] =
       [(machine_id, status_tag, ''10''), (machine_id, status_tag, ''20''),
        (machine_id, status_tag, ''30'')]"
    unfolding a s3 by (simp add: st)
  have f: "buildConfigTable [(machine_id, status_tag, [])] = [(machine_id, status_tag, [])]"
    unfolding a s0 by (simp add: st)
  have g: "config_csv_loop
       [[(''id'', AttrS machine_id), (''machineStatusTagName'', AttrS status_tag),
          (''machineStatusDownValue'', AttrS ''10, 20,30'')]] config_csv_body =
       Inr (config_csv_body @
            ([CHR 0x0A, CHR 0x27] @ machine_id @ [CHR 0x27, CHR '','', CHR 0x27] @ status_tag @
               [CHR 0x27, CHR '','', CHR 0x27] @ ''10'' @ [CHR 0x27]) @
            ([CHR 0x0A, CHR 0x27] @ machine_id @ [CHR 0x27, CHR '','', CHR 0x27] @ status_tag @
               [CHR 0x27, CHR '','', CHR 0x27] @ ''20'' @ [CHR 0x27]) @
            ([CHR 0x0A, CHR 0x27] @ machine_id @ [CHR 0x27, CHR '','', CHR 0x27] @ status_tag @
               [CHR 0x27, CHR '','', CHR 0x27] @ ''30'' @ [CHR 0x27]))"
    unfolding config_csv_loop_single s3 by (simp add: csv_line_three st)
  have h: "config_csv_loop
       [[(''id'', AttrS machine_id), (''machineStatusTagName'', AttrS status_tag),
          (''machineStatusDownValue'', AttrS [])]] config_csv_body =
       Inr (config_csv_body @
            ([CHR 0x0A, CHR 0x27] @ machine_id @ [CHR 0x27, CHR '','', CHR 0x27] @ status_tag @
               [CHR 0x27, CHR '','', CHR 0x27] @ [] @ [CHR 0x27]))"
    unfolding config_csv_loop_single s0 by (simp add: csv_line_three st)
  have i: "(CHR 0x0A \<notin> set machine_id \<longrightarrow> CHR 0x0A \<notin> set status_tag \<longrightarrow> CHR 0x0A \<notin> set down_value \<longrightarrow>
      (\<exists>body. config_csv_loop
         [[(''id'', AttrS machine_id), (''machineStatusTagName'', AttrS status_tag),
          (''machineStatusDownValue'', AttrS down_value)]] config_csv_body = Inr body
       \<and> count_list body (CHR 0x0A) =
           count_list config_csv_body (CHR 0x0A) + Suc (count_list down_value (CHR '',''))))"
  proof (intro impI)
    assume m: "CHR 0x0A \<notin> set machine_id" and t: "CHR 0x0A \<notin> set status_tag"
      and d: "CHR 0x0A \<notin> set down_value"
    have "\<forall>val \<in> set (split_from '','' [] down_value). CHR 0x0A \<notin> set val"
      using set_split_from [of "'',''" "[]" down_value] d by auto
    from config_csv_values_line_feeds [OF m t this, of config_csv_body]
    have "count_list (config_csv_values machine_id status_tag (split_from '','' [] down_value)
             config_csv_body) (CHR 0x0A) =
          count_list config_csv_body (CHR 0x0A) + Suc (count_list down_value (CHR '',''))"
      by (simp add: length_split_from_single)
    then show "(\<exists>body. config_csv_loop
         [[(''id'', AttrS machine_id), (''machineStatusTagName'', AttrS status_tag),
          (''machineStatusDownValue'', AttrS down_value)]] config_csv_body = Inr body
       \<and> count_list body (CHR 0x0A) =
           count_list config_csv_body (CHR 0x0A) + Suc (count_list down_value (CHR '','')))"
      unfolding config_csv_loop_single by blast
  qed
  have c: "(map (\<lambda>item. subscript_S item ''id'') items = map Inr ids \<longrightarrow>
      config_csv_loop items config_csv_body =
        Inr (config_csv_body @
             concat (map (\<lambda>(machine_id, status_tag, val).
                            [CHR 0x0A, CHR 0x27] @ machine_id @ [CHR 0x27, CHR '','', CHR 0x27] @
                            status_tag @ [CHR 0x27, CHR '','', CHR 0x27] @ val @ [CHR 0x27])
               (buildConfigTable
                  (map (\<lambda>(machine_id, item).
                          (machine_id, get_S item ''machineStatusTagName'' [],
                           get_S item ''machineStatusDownValue'' []))
                       (zip ids items))))))"
  proof
    assume "map (\<lambda>item. subscript_S item ''id'') items = map Inr ids"
    from config_csv_loop_records [OF this, of config_csv_body]
    show "config_csv_loop items config_csv_body =
        Inr (config_csv_body @
             concat (map (\<lambda>(machine_id, status_tag, val).
                            [CHR 0x0A, CHR 0x27] @ machine_id @ [CHR 0x27, CHR '','', CHR 0x27] @
                            status_tag @ [CHR 0x27, CHR '','', CHR 0x27] @ val @ [CHR 0x27])
               (buildConfigTable
                  (map (\<lambda>(machine_id, item).
                          (machine_id, get_S item ''machineStatusTagName'' [],
                           get_S item ''machineStatusDownValue'' []))
                       (zip ids items)))))"
      by (simp add: csv_line_three)
  qed
  from c a b e f g h i show ?thesis by (intro conjI)
qed

text \<open>
  The theorem at two items, one with the down value \<open>1, 2\<close> and one with an id only: the
  body is the header and three lines.
\<close>

theorem config_table_one_record_per_piece_witness:
  "map (\<lambda>item. subscript_S item ''id'')
     [[(''id'', AttrS ''m1''), (''machineStatusTagName'', AttrS ''st''),
       (''machineStatusDownValue'', AttrS ''1, 2'')],
      [(''id'', AttrS ''m2'')]] = map Inr [''m1'', ''m2'']
   \<and> config_csv_loop
       [[(''id'', AttrS ''m1''), (''machineStatusTagName'', AttrS ''st''),
         (''machineStatusDownValue'', AttrS ''1, 2'')],
        [(''id'', AttrS ''m2'')]] ''id,status_tag,down_value'' =
       Inr (''id,status_tag,down_value'' @
            [CHR 0x0A, CHR 0x27] @ ''m1'' @ [CHR 0x27, CHR '','', CHR 0x27] @ ''st'' @
              [CHR 0x27, CHR '','', CHR 0x27] @ ''1'' @ [CHR 0x27] @
            [CHR 0x0A, CHR 0x27] @ ''m1'' @ [CHR 0x27, CHR '','', CHR 0x27] @ ''st'' @
              [CHR 0x27, CHR '','', CHR 0x27] @ ''2'' @ [CHR 0x27] @
            [CHR 0x0A, CHR 0x27] @ ''m2'' @ [CHR 0x27, CHR '','', CHR 0x27] @
              [CHR 0x27, CHR '','', CHR 0x27] @ [CHR 0x27])
   \<and> CHR 0x0A \<notin> set ''m1'' \<and> CHR 0x0A \<notin> set ''st'' \<and> CHR 0x0A \<notin> set ''1, 2''
   \<and> count_list
         (projr (config_csv_loop
            [[(''id'', AttrS ''m1''), (''machineStatusTagName'', AttrS ''st''),
              (''machineStatusDownValue'', AttrS ''1, 2'')]] ''id,status_tag,down_value''))
         (CHR 0x0A) = 2"
proof -
  let ?items = "[[(''id'', AttrS ''m1''), (''machineStatusTagName'', AttrS ''st''),
       (''machineStatusDownValue'', AttrS ''1, 2'')],
      [(''id'', AttrS ''m2'')]]"
  note inst = config_table_one_record_per_piece
    [of "?items" "[''m1'', ''m2'']" "''id,status_tag,down_value''" "''m1''" "''st''" "''1, 2''"]
  have a: "map (\<lambda>item. subscript_S item ''id'') ?items = map Inr [''m1'', ''m2'']"
    by (simp add: subscript_S_def subscript_def)
  have b: "buildConfigTable
             (map (\<lambda>(machine_id, item).
                     (machine_id, get_S item ''machineStatusTagName'' [],
                      get_S item ''machineStatusDownValue'' []))
                  (zip [''m1'', ''m2''] ?items)) =
           [(''m1'', ''st'', ''1''), (''m1'', ''st'', ''2''), (''m2'', [], [])]"
    by (simp add: buildConfigTable_def pieces_def get_S_def startswith_def py_strip_def isspace_def)
  from inst a
  have "config_csv_loop ?items ''id,status_tag,down_value'' =
        Inr (''id,status_tag,down_value'' @
             concat (map (\<lambda>(machine_id, status_tag, val).
                            [CHR 0x0A, CHR 0x27] @ machine_id @ [CHR 0x27, CHR '','', CHR 0x27] @
                            status_tag @ [CHR 0x27, CHR '','', CHR 0x27] @ val @ [CHR 0x27])
               (buildConfigTable
                  (map (\<lambda>(machine_id, item).
                          (machine_id, get_S item ''machineStatusTagName'' [],
                           get_S item ''machineStatusDownValue'' []))
                       (zip [''m1'', ''m2''] ?items)))))"
    by blast
  then have c: "config_csv_loop ?items ''id,status_tag,down_value'' =
       Inr (''id,status_tag,down_value'' @
            [CHR 0x0A, CHR 0x27] @ ''m1'' @ [CHR 0x27, CHR '','', CHR 0x27] @ ''st'' @
              [CHR 0x27, CHR '','', CHR 0x27] @ ''1'' @ [CHR 0x27] @
            [CHR 0x0A, CHR 0x27] @ ''m1'' @ [CHR 0x27, CHR '','', CHR 0x27] @ ''st'' @
              [CHR 0x27, CHR '','', CHR 0x27] @ ''2'' @ [CHR 0x27] @
            [CHR 0x0A, CHR 0x27] @ ''m2'' @ [CHR 0x27, CHR '','', CHR 0x27] @
              [CHR 0x27, CHR '','', CHR 0x27] @ [CHR 0x27])"
    unfolding b by simp
  have d: "CHR 0x0A \<notin> set ''m1''" "CHR 0x0A \<notin> set ''st''" "CHR 0x0A \<notin> set ''1, 2''"
    by simp_all
  from inst d obtain body where
    body: "config_csv_loop
            [[(''id'', AttrS ''m1''), (''machineStatusTagName'', AttrS ''st''),
              (''machineStatusDownValue'', AttrS ''1, 2'')]] ''id,status_tag,down_value'' = Inr body"
      "count_list body (CHR 0x0A) =
         count_list ''id,status_tag,down_value'' (CHR 0x0A) + Suc (count_list ''1, 2'' (CHR '',''))"
    by blast
  from body(2) have "count_list body (CHR 0x0A) = 2" by simp
  with body(1) have e: "count_list
         (projr (config_csv_loop
            [[(''id'', AttrS ''m1''), (''machineStatusTagName'', AttrS ''st''),
              (''machineStatusDownValue'', AttrS ''1, 2'')]] ''id,status_tag,down_value''))
         (CHR 0x0A) = 2"
    by simp
  from a c d e show ?thesis by (intro conjI)
qed

section \<open>Properties of the manifest and of the message conversion\<close>

text \<open>
  Claim C8, as amended. For every bucket, prefix and file name the manifest has the fixed
  shape with one location, the S3 URI of the file, and the upload settings \<open>format\<close> CSV,
  \<open>delimiter\<close> comma, \<open>textqualifier\<close> (in lower case) the single quote and
  \<open>containsHeader\<close> the string \<open>true\<close>; the settings have no key \<open>textQualifier\<close>.
\<close>

theorem get_quicksight_manifest_shape:
  "\<exists>settings.
     get_quicksight_manifest bucket csv_prefix file_name =
       JObject [(''fileLocations'',
                   JArray [JObject [(''URIs'',
                     JArray [JString (''s3://'' @ bucket @ ''/'' @ csv_prefix @ ''/'' @ file_name)])]]),
                (''globalUploadSettings'', settings)]
   \<and> settings = JObject [(''format'', JString ''CSV''), (''delimiter'', JString '',''),
                         (''textqualifier'', JString [CHR 0x27]),
                         (''containsHeader'', JString ''true'')]
   \<and> json_get (get_quicksight_manifest bucket csv_prefix file_name) ''globalUploadSettings'' =
         Some settings
   \<and> json_get settings ''format'' = Some (JString ''CSV'')
   \<and> json_get settings ''delimiter'' = Some (JString '','')
   \<and> json_get settings ''textqualifier'' = Some (JString [CHR 0x27])
   \<and> json_get settings ''containsHeader'' = Some (JString ''true'')
   \<and> json_get settings ''textQualifier'' = None"
  by (simp add: get_quicksight_manifest_def json_get_def)

text \<open>
  Claim C8 as stated fails: the manifest for \<open>machine_information.csv\<close> is not the document
  of the specification, since its settings have no key \<open>textQualifier\<close> (the key is
  \<open>textqualifier\<close>) and \<open>containsHeader\<close> is a string, not a boolean.
\<close>

theorem get_quicksight_manifest_counterexample:
  "get_quicksight_manifest ''output'' ''csv'' ''machine_information.csv''
     \<noteq> spec_manifest ''s3://output/csv/machine_information.csv''
   \<and> json_get (JObject [(''format'', JString ''CSV''), (''delimiter'', JString '',''),
                        (''textqualifier'', JString [CHR 0x27]),
                        (''containsHeader'', JString ''true'')]) ''textQualifier'' = None
   \<and> json_get (get_quicksight_manifest ''output'' ''csv'' ''machine_information.csv'')
         ''globalUploadSettings'' =
       Some (JObject [(''format'', JString ''CSV''), (''delimiter'', JString '',''),
                      (''textqualifier'', JString [CHR 0x27]),
                      (''containsHeader'', JString ''true'')])"
  by (simp add: get_quicksight_manifest_def spec_manifest_def json_get_def)

lemma convert_data_format_loop_success:
  "map (convert_message md lib) messages = map Inr records \<Longrightarrow>
   convert_data_format_loop md lib messages return_messages = Inr (return_messages @ records)"
proof (induction messages arbitrary: records return_messages)
  case Nil
  then show ?case by simp
next
  case (Cons message messages)
  then obtain r rs where "records = r # rs" "convert_message md lib message = Inr r"
    "map (convert_message md lib) messages = map Inr rs"
    by (cases records) auto
  with Cons.IH [of rs "return_messages @ [r]"] show ?case by simp
qed

lemma convert_data_format_loop_returns:
  "convert_data_format_loop md lib messages return_messages = Inr result \<Longrightarrow>
   \<exists>records. map (convert_message md lib) messages = map Inr records \<and>
             result = return_messages @ records"
proof (induction messages arbitrary: return_messages)
  case Nil
  then show ?case by simp
next
  case (Cons message messages)
  then obtain r where r: "convert_message md lib message = Inr r"
    "convert_data_format_loop md lib messages (return_messages @ [r]) = Inr result"
    by (auto split: sum.splits)
  from Cons.IH [OF r(2)] obtain rs where
    "map (convert_message md lib) messages = map Inr rs" "result = (return_messages @ [r]) @ rs"
    by blast
  with r(1) have "map (convert_message md lib) (message # messages) = map Inr (r # rs)"
    "result = return_messages @ (r # rs)" by simp_all
  then show ?case by blast
qed

lemma convert_data_format_loop_error:
  "message \<in> set messages \<Longrightarrow> convert_message md lib message = Inl e \<Longrightarrow>
   \<exists>e'. convert_data_format_loop md lib messages return_messages = Inl e'"
proof (induction messages arbitrary: return_messages)
  case Nil
  then show ?case by simp
next
  case (Cons m messages)
  show ?case
  proof (cases "convert_message md lib m")
    case (Inl a)
    then show ?thesis by simp
  next
    case (Inr r)
    with Cons.prems have "message \<in> set messages" by auto
    from Cons.IH [OF this Cons.prems(2)] Inr show ?thesis by simp
  qed
qed

lemma convert_message_fields:
  assumes "convert_message md lib message = Inr data"
  shows "\<exists>name timestamp parsed v.
           subscript message (MessageAliasKeyName md) = Inr (PStr name)
         \<and> decomposeMessageAlias (Delimiter md) name = Inr (data_id data, data_tag data)
         \<and> subscript message (MessageTimestampKeyName md) = Inr timestamp
         \<and> parser_parse lib timestamp = Inr parsed
         \<and> data_timestamp data = strftime lib parsed ''%Y/%m/%d %H:%M:%S.%f''
         \<and> subscript message (MessageQualityKeyName md) = Inr (data_quality data)
         \<and> subscript message (MessageValueKeyName md) = Inr v
         \<and> data_value data = py_str lib v"
  using assms unfolding convert_message_def
  by (auto split: sum.splits pyval.splits prod.splits)

lemma convert_message_unparseable:
  assumes "subscript message (MessageTimestampKeyName md) = Inr timestamp"
      and "parser_parse lib timestamp = Inl e"
  shows "\<exists>e'. convert_message md lib message = Inl e'"
  using assms unfolding convert_message_def
  by (auto split: sum.splits pyval.splits prod.splits)


text \<open>
  Claim C3. Let \<open>messages\<close> be the list under the messages key of the record. When every
  message converts, \<^verbatim>\<open>convert_data_format\<close> returns the converted messages as one list in the
  order of the input. When it returns \<open>records\<close>, there is exactly one record for each
  message, and the record at index \<open>i\<close> comes from the message at index \<open>i\<close>: id and tag
  from the alias, the timestamp parsed and printed with the format
  \<^verbatim>\<open>%Y/%m/%d %H:%M:%S.%f\<close>, the quality field unchanged and the value turned into a string.
  When the parser raises on the timestamp of some message, the call raises and returns
  no records.
\<close>

theorem convert_data_format_one_record_per_message:
  assumes "subscript record (MessagesKeyName md) = Inr messages"
  shows "(map (convert_message md lib) messages = map Inr records \<longrightarrow>
            convert_data_format md lib record = Inr records)
       \<and> (convert_data_format md lib record = Inr records \<longrightarrow>
            length records = length messages
          \<and> (\<forall>i < length messages.
                \<exists>name timestamp parsed v.
                   subscript (messages ! i) (MessageAliasKeyName md) = Inr (PStr name)
                 \<and> decomposeMessageAlias (Delimiter md) name =
                     Inr (data_id (records ! i), data_tag (records ! i))
                 \<and> subscript (messages ! i) (MessageTimestampKeyName md) = Inr timestamp
                 \<and> parser_parse lib timestamp = Inr parsed
                 \<and> data_timestamp (records ! i) = strftime lib parsed ''%Y/%m/%d %H:%M:%S.%f''
                 \<and> subscript (messages ! i) (MessageQualityKeyName md) =
                     Inr (data_quality (records ! i))
                 \<and> subscript (messages ! i) (MessageValueKeyName md) = Inr v
                 \<and> data_value (records ! i) = py_str lib v))
       \<and> (\<forall>message \<in> set messages. \<forall>timestamp e.
            subscript message (MessageTimestampKeyName md) = Inr timestamp \<longrightarrow>
            parser_parse lib timestamp = Inl e \<longrightarrow>
            (\<exists>e'. convert_data_format md lib record = Inl e'))"
proof (intro conjI impI ballI allI)
  assume "map (convert_message md lib) messages = map Inr records"
  from convert_data_format_loop_success [OF this, of "[]"] assms
  show "convert_data_format md lib record = Inr records"
    by (simp add: convert_data_format_def)
next
  assume "convert_data_format md lib record = Inr records"
  with assms have "convert_data_format_loop md lib messages [] = Inr records"
    by (simp add: convert_data_format_def)
  from convert_data_format_loop_returns [OF this]
  have m: "map (convert_message md lib) messages = map Inr records" by simp
  from arg_cong [OF m, of length] show "length records = length messages" by simp
next
  fix i
  assume "convert_data_format md lib record = Inr records" and i: "i < length messages"
  with assms have "convert_data_format_loop md lib messages [] = Inr records"
    by (simp add: convert_data_format_def)
  from convert_data_format_loop_returns [OF this]
  have m: "map (convert_message md lib) messages = map Inr records" by simp
  from arg_cong [OF m, of length] have len: "length records = length messages" by simp
  from arg_cong [OF m, of "\<lambda>xs. xs ! i"] i len
  have "convert_message md lib (messages ! i) = Inr (records ! i)" by simp
  then show "\<exists>name timestamp parsed v.
                   subscript (messages ! i) (MessageAliasKeyName md) = Inr (PStr name)
                 \<and> decomposeMessageAlias (Delimiter md) name =
                     Inr (data_id (records ! i), data_tag (records ! i))
                 \<and> subscript (messages ! i) (MessageTimestampKeyName md) = Inr timestamp
                 \<and> parser_parse lib timestamp = Inr parsed
                 \<and> data_timestamp (records ! i) = strftime lib parsed ''%Y/%m/%d %H:%M:%S.%f''
                 \<and> subscript (messages ! i) (MessageQualityKeyName md) =
                     Inr (data_quality (records ! i))
                 \<and> subscript (messages ! i) (MessageValueKeyName md) = Inr v
                 \<and> data_value (records ! i) = py_str lib v"
    by (rule convert_message_fields)
next
  fix message timestamp e
  assume "message \<in> set messages"
    and "subscript message (MessageTimestampKeyName md) = Inr timestamp"
    and "parser_parse lib timestamp = Inl e"
  from convert_message_unparseable [OF this(2,3)] obtain e1 where
    "convert_message md lib message = Inl e1" by blast
  from convert_data_format_loop_error [OF \<open>message \<in> set messages\<close> this, of "[]"] assms
  show "\<exists>e'. convert_data_format md lib record = Inl e'"
    by (simp add: convert_data_format_def)
qed

lemma example_message_converted:
  "convert_message example_metadata example_library
     (example_message (''PLANT/LINE3/MACH07/'' @ tag) ''2021-01-02T03:04:05'') =
   (case decomposeMessageAlias ''/'' (''PLANT/LINE3/MACH07/'' @ tag) of
      Inl e \<Rightarrow> Inl e
    | Inr (joined_ids, t) \<Rightarrow>
        Inr \<lparr>data_id = joined_ids, data_tag = t,
             data_timestamp = ''2021/01/02 03:04:05.000000'',
             data_quality = PStr ''GOOD'', data_value = ''7''\<rparr>)"
  by (simp add: convert_message_def example_metadata_def example_library_def
      example_message_def subscript_def py_str_def split: sum.splits prod.splits)

text \<open>
  The theorem at a record with two messages, and at a record whose second message has a
  timestamp the parser rejects.
\<close>

theorem convert_data_format_one_record_per_message_witness:
  "subscript example_envelope (MessagesKeyName example_metadata) =
     Inr [example_message ''PLANT/LINE3/MACH07/TEMP'' ''2021-01-02T03:04:05'',
          example_message ''PLANT/LINE3/MACH07/SPEED'' ''2021-01-02T03:04:05'']
   \<and> convert_data_format example_metadata example_library example_envelope =
       Inr [\<lparr>data_id = ''PLANT/LINE3/MACH07'', data_tag = ''TEMP'',
              data_timestamp = ''2021/01/02 03:04:05.000000'',
              data_quality = PStr ''GOOD'', data_value = ''7''\<rparr>,
            \<lparr>data_id = ''PLANT/LINE3/MACH07'', data_tag = ''SPEED'',
              data_timestamp = ''2021/01/02 03:04:05.000000'',
              data_quality = PStr ''GOOD'', data_value = ''7''\<rparr>]
   \<and> subscript bad_envelope (MessagesKeyName example_metadata) =
     Inr [example_message ''PLANT/LINE3/MACH07/TEMP'' ''2021-01-02T03:04:05'',
          example_message ''PLANT/LINE3/MACH07/SPEED'' ''yesterday'']
   \<and> subscript (example_message ''PLANT/LINE3/MACH07/SPEED'' ''yesterday'')
         (MessageTimestampKeyName example_metadata) = Inr (PStr ''yesterday'')
   \<and> parser_parse example_library (PStr ''yesterday'') = Inl ParserError
   \<and> isl (convert_data_format example_metadata example_library bad_envelope)"
proof -
  let ?messages = "[example_message ''PLANT/LINE3/MACH07/TEMP'' ''2021-01-02T03:04:05'',
          example_message ''PLANT/LINE3/MACH07/SPEED'' ''2021-01-02T03:04:05'']"
  let ?records = "[\<lparr>data_id = ''PLANT/LINE3/MACH07'', data_tag = ''TEMP'',
              data_timestamp = ''2021/01/02 03:04:05.000000'',
              data_quality = PStr ''GOOD'', data_value = ''7''\<rparr>,
            \<lparr>data_id = ''PLANT/LINE3/MACH07'', data_tag = ''SPEED'',
              data_timestamp = ''2021/01/02 03:04:05.000000'',
              data_quality = PStr ''GOOD'', data_value = ''7''\<rparr>]"
  have a: "subscript example_envelope (MessagesKeyName example_metadata) = Inr ?messages"
    by (simp add: subscript_def example_envelope_def example_metadata_def)
  have t: "decomposeMessageAlias ''/'' (''PLANT/LINE3/MACH07/'' @ ''TEMP'') =
           Inr (''PLANT/LINE3/MACH07'', ''TEMP'')"
    by (simp add: decomposeMessageAlias_def py_split_def py_pop_def startswith_def)
  have s: "decomposeMessageAlias ''/'' (''PLANT/LINE3/MACH07/'' @ ''SPEED'') =
           Inr (''PLANT/LINE3/MACH07'', ''SPEED'')"
    by (simp add: decomposeMessageAlias_def py_split_def py_pop_def startswith_def)
  have b: "map (convert_message example_metadata example_library) ?messages = map Inr ?records"
    using example_message_converted [of "''TEMP''"] example_message_converted [of "''SPEED''"]
    unfolding t s by simp
  from convert_data_format_one_record_per_message [OF a, of example_library ?records] b
  have "convert_data_format example_metadata example_library example_envelope = Inr ?records"
    by blast
  note good = this
  let ?bad = "[example_message ''PLANT/LINE3/MACH07/TEMP'' ''2021-01-02T03:04:05'',
          example_message ''PLANT/LINE3/MACH07/SPEED'' ''yesterday'']"
  have c: "subscript bad_envelope (MessagesKeyName example_metadata) = Inr ?bad"
    by (simp add: subscript_def bad_envelope_def example_metadata_def)
  have d: "subscript (example_message ''PLANT/LINE3/MACH07/SPEED'' ''yesterday'')
         (MessageTimestampKeyName example_metadata) = Inr (PStr ''yesterday'')"
    by (simp add: subscript_def example_message_def example_metadata_def)
  have e: "parser_parse example_library (PStr ''yesterday'') = Inl ParserError"
    by (simp add: example_library_def)
  have "example_message ''PLANT/LINE3/MACH07/SPEED'' ''yesterday'' \<in> set ?bad" by simp
  with convert_data_format_one_record_per_message [OF c, of example_library "[]"] d e
  obtain e' where "convert_data_format example_metadata example_library bad_envelope = Inl e'"
    by blast
  then have f: "isl (convert_data_format example_metadata example_library bad_envelope)"
    by simp
  from a good c d e f show ?thesis by blast
qed

section \<open>Properties of the partition gate\<close>

lemma KeyCount_positive_iff:
  "0 < list_objects_v2_KeyCount w bucket prefix \<longleftrightarrow>
   (\<exists>key. (bucket, key) \<in> set (s3_objects w) \<and> startswith prefix key)"
proof -
  let ?matching = "filter (\<lambda>(b, k). b = bucket \<and> startswith prefix k) (s3_objects w)"
  have "0 < list_objects_v2_KeyCount w bucket prefix \<longleftrightarrow> ?matching \<noteq> []"
    by (simp add: list_objects_v2_KeyCount_def)
  also have "\<dots> \<longleftrightarrow> (\<exists>x \<in> set (s3_objects w). (\<lambda>(b, k). b = bucket \<and> startswith prefix k) x)"
    by (simp add: filter_empty_conv)
  also have "\<dots> \<longleftrightarrow> (\<exists>key. (bucket, key) \<in> set (s3_objects w) \<and> startswith prefix key)"
    by auto
  finally show ?thesis .
qed

lemma main_no_new_data:
  assumes "list_objects_v2_KeyCount w (INPUT_BUCKET args) (PARTITION args) = 0"
  shows "main args lib Map_apply w =
         (Inl (NoNewDataException (''No new data for '' @ PARTITION args @ '' partition.'')),
          w\<lparr>calls := calls w @ [ListObjectsV2 (INPUT_BUCKET args) (PARTITION args)]\<rparr>)"
  using assms by (simp add: main_def has_new_s3_data_def log_call_def)

lemma main_calls:
  "\<exists>new. calls (snd (main args lib Map_apply w)) =
           calls w @ ListObjectsV2 (INPUT_BUCKET args) (PARTITION args) # new
        \<and> (new \<noteq> [] \<longrightarrow> 0 < list_objects_v2_KeyCount w (INPUT_BUCKET args) (PARTITION args))"
proof (cases "list_objects_v2_KeyCount w (INPUT_BUCKET args) (PARTITION args) = 0")
  case True
  then show ?thesis by (simp add: main_no_new_data)
next
  case False
  then show ?thesis
    by (simp add: main_def has_new_s3_data_def log_call_def Let_def split: sum.splits)
qed

lemma main_config_missing:
  assumes "0 < list_objects_v2_KeyCount w (INPUT_BUCKET args) (PARTITION args)"
      and "get_Item (dynamodb_get_item w (message_format_request (CONFIG_TABLE args))) = []"
  shows "fst (main args lib Map_apply w) =
         Inl (ItemNotFoundException (''Item does not exist in '' @ CONFIG_TABLE args @ ''.''))"
  using assms
  by (simp add: main_def has_new_s3_data_def log_call_def Let_def get_metadata_def)

lemma main_written:
  "written (snd (main args lib Map_apply w)) \<noteq> written w \<or>
   commits (snd (main args lib Map_apply w)) \<noteq> commits w \<Longrightarrow>
   0 < list_objects_v2_KeyCount w (INPUT_BUCKET args) (PARTITION args)"
  by (rule ccontr) (simp add: main_no_new_data)


text \<open>
  Claim C6. \<^verbatim>\<open>has_new_s3_data\<close> returns true exactly when some object of the bucket has a key
  that starts with the partition prefix, that is when the key count is not zero, and it
  changes nothing but the record of calls. When it returns false, \<^verbatim>\<open>main\<close> raises
  \<^verbatim>\<open>NoNewDataException\<close>; the state is the state before with the one call listed: nothing
  is written, no bookmark is committed, no transformation is run.
\<close>

theorem has_new_s3_data_gates_the_job:
  "fst (has_new_s3_data bucket part w) =
     (\<exists>key. (bucket, key) \<in> set (s3_objects w) \<and> startswith part key)
 \<and> fst (has_new_s3_data bucket part w) = (0 < list_objects_v2_KeyCount w bucket part)
 \<and> snd (has_new_s3_data bucket part w) =
     w\<lparr>calls := calls w @ [ListObjectsV2 bucket part]\<rparr>
 \<and> (\<not> fst (has_new_s3_data (INPUT_BUCKET args) (PARTITION args) w) \<longrightarrow>
       main args lib Map_apply w =
         (Inl (NoNewDataException (''No new data for '' @ PARTITION args @ '' partition.'')),
          w\<lparr>calls := calls w @ [ListObjectsV2 (INPUT_BUCKET args) (PARTITION args)]\<rparr>)
     \<and> written (snd (main args lib Map_apply w)) = written w
     \<and> commits (snd (main args lib Map_apply w)) = commits w
     \<and> s3_objects (snd (main args lib Map_apply w)) = s3_objects w
     \<and> MapApply \<notin> set (calls (snd (main args lib Map_apply w))) - set (calls w)
     \<and> JobCommit \<notin> set (calls (snd (main args lib Map_apply w))) - set (calls w))"
proof (intro conjI impI)
  show "fst (has_new_s3_data bucket part w) =
     (\<exists>key. (bucket, key) \<in> set (s3_objects w) \<and> startswith part key)"
    using KeyCount_positive_iff [of w bucket part] by (simp add: has_new_s3_data_def)
  show "fst (has_new_s3_data bucket part w) = (0 < list_objects_v2_KeyCount w bucket part)"
    by (simp add: has_new_s3_data_def)
  show "snd (has_new_s3_data bucket part w) =
     w\<lparr>calls := calls w @ [ListObjectsV2 bucket part]\<rparr>"
    by (simp add: has_new_s3_data_def log_call_def)
next
  assume "\<not> fst (has_new_s3_data (INPUT_BUCKET args) (PARTITION args) w)"
  then have z: "list_objects_v2_KeyCount w (INPUT_BUCKET args) (PARTITION args) = 0"
    by (simp add: has_new_s3_data_def)
  note m = main_no_new_data [OF z, of lib Map_apply]
  show "main args lib Map_apply w =
         (Inl (NoNewDataException (''No new data for '' @ PARTITION args @ '' partition.'')),
          w\<lparr>calls := calls w @ [ListObjectsV2 (INPUT_BUCKET args) (PARTITION args)]\<rparr>)"
    by (rule m)
  show "written (snd (main args lib Map_apply w)) = written w" by (simp add: m)
  show "commits (snd (main args lib Map_apply w)) = commits w" by (simp add: m)
  show "s3_objects (snd (main args lib Map_apply w)) = s3_objects w" by (simp add: m)
  show "MapApply \<notin> set (calls (snd (main args lib Map_apply w))) - set (calls w)"
    by (simp add: m)
  show "JobCommit \<notin> set (calls (snd (main args lib Map_apply w))) - set (calls w)"
    by (simp add: m)
qed

text \<open>
  The theorem at a bucket whose only object lies under the partition of another day, and
  the gate at a bucket with an object under the partition.
\<close>

theorem has_new_s3_data_gates_the_job_witness:
  "\<not> fst (has_new_s3_data (INPUT_BUCKET example_args) (PARTITION example_args)
            (example_world [(''input'', ''2021/01/01/a.json'')] config_only_store))
   \<and> main example_args example_library (\<lambda>f frame. Inr []) 
        (example_world [(''input'', ''2021/01/01/a.json'')] config_only_store) =
       (Inl (NoNewDataException ''No new data for 2021/01/02 partition.''),
        (example_world [(''input'', ''2021/01/01/a.json'')] config_only_store)
          \<lparr>calls := [ListObjectsV2 ''input'' ''2021/01/02'']\<rparr>)
   \<and> fst (has_new_s3_data ''input'' ''2021/01/02''
            (example_world [(''input'', ''2021/01/02/a.json'')] config_only_store))"
proof -
  let ?w = "example_world [(''input'', ''2021/01/01/a.json'')] config_only_store"
  have a: "\<not> fst (has_new_s3_data (INPUT_BUCKET example_args) (PARTITION example_args) ?w)"
    by (simp add: has_new_s3_data_def list_objects_v2_KeyCount_def example_world_def
        example_args_def startswith_def)
  from has_new_s3_data_gates_the_job
    [of "''input''" "''2021/01/02''" ?w example_args example_library "\<lambda>f frame. Inr []"] a
  have "main example_args example_library (\<lambda>f frame. Inr []) ?w =
         (Inl (NoNewDataException (''No new data for '' @ PARTITION example_args @ '' partition.'')),
          ?w\<lparr>calls := calls ?w @
             [ListObjectsV2 (INPUT_BUCKET example_args) (PARTITION example_args)]\<rparr>)"
    by blast
  then have b: "main example_args example_library (\<lambda>f frame. Inr []) ?w =
       (Inl (NoNewDataException ''No new data for 2021/01/02 partition.''),
        ?w\<lparr>calls := [ListObjectsV2 ''input'' ''2021/01/02'']\<rparr>)"
    by (simp add: example_args_def example_world_def)
  have "(''input'', ''2021/01/02/a.json'') \<in>
          set (s3_objects (example_world [(''input'', ''2021/01/02/a.json'')] config_only_store))
        \<and> startswith ''2021/01/02'' ''2021/01/02/a.json''"
    by (simp add: example_world_def startswith_def)
  with has_new_s3_data_gates_the_job
    [of "''input''" "''2021/01/02''"
        "example_world [(''input'', ''2021/01/02/a.json'')] config_only_store"
        example_args example_library "\<lambda>f frame. Inr []"]
  have c: "fst (has_new_s3_data ''input'' ''2021/01/02''
            (example_world [(''input'', ''2021/01/02/a.json'')] config_only_store))"
    by blast
  from a b c show ?thesis by blast
qed

text \<open>
  Claim C10. When the key count under the partition prefix is zero, \<^verbatim>\<open>main\<close> raises
  \<^verbatim>\<open>NoNewDataException\<close>, whatever DynamoDB holds, and never \<^verbatim>\<open>ItemNotFoundException\<close>; its
  only call is the listing of the objects, so the config item is not read. With objects
  under the prefix and no config item it raises \<^verbatim>\<open>ItemNotFoundException\<close>. Every call
  behind the listing (the read of the input, of the config item, the transformation, the
  write, the commit), every written frame and every commit occur only when the key count
  is positive.
\<close>

theorem gate_precedes_config_lookup:
  "(list_objects_v2_KeyCount w (INPUT_BUCKET args) (PARTITION args) = 0 \<longrightarrow>
      fst (main args lib Map_apply w) =
        Inl (NoNewDataException (''No new data for '' @ PARTITION args @ '' partition.''))
    \<and> fst (main args lib Map_apply w) \<noteq>
        Inl (ItemNotFoundException (''Item does not exist in '' @ CONFIG_TABLE args @ ''.''))
    \<and> calls (snd (main args lib Map_apply w)) =
        calls w @ [ListObjectsV2 (INPUT_BUCKET args) (PARTITION args)])
 \<and> (0 < list_objects_v2_KeyCount w (INPUT_BUCKET args) (PARTITION args) \<longrightarrow>
    get_Item (dynamodb_get_item w (message_format_request (CONFIG_TABLE args))) = [] \<longrightarrow>
      fst (main args lib Map_apply w) =
        Inl (ItemNotFoundException (''Item does not exist in '' @ CONFIG_TABLE args @ ''.'')))
 \<and> (\<exists>new. calls (snd (main args lib Map_apply w)) =
             calls w @ ListObjectsV2 (INPUT_BUCKET args) (PARTITION args) # new
          \<and> (new \<noteq> [] \<longrightarrow> 0 < list_objects_v2_KeyCount w (INPUT_BUCKET args) (PARTITION args)))
 \<and> (written (snd (main args lib Map_apply w)) \<noteq> written w \<or>
     commits (snd (main args lib Map_apply w)) \<noteq> commits w \<longrightarrow>
      0 < list_objects_v2_KeyCount w (INPUT_BUCKET args) (PARTITION args))"
proof (intro conjI impI)
  assume z: "list_objects_v2_KeyCount w (INPUT_BUCKET args) (PARTITION args) = 0"
  note m = main_no_new_data [OF z, of lib Map_apply]
  show "fst (main args lib Map_apply w) =
        Inl (NoNewDataException (''No new data for '' @ PARTITION args @ '' partition.''))"
    by (simp add: m)
  show "fst (main args lib Map_apply w) \<noteq>
        Inl (ItemNotFoundException (''Item does not exist in '' @ CONFIG_TABLE args @ ''.''))"
    by (simp add: m)
  show "calls (snd (main args lib Map_apply w)) =
        calls w @ [ListObjectsV2 (INPUT_BUCKET args) (PARTITION args)]"
    by (simp add: m)
next
  assume "0 < list_objects_v2_KeyCount w (INPUT_BUCKET args) (PARTITION args)"
    and "get_Item (dynamodb_get_item w (message_format_request (CONFIG_TABLE args))) = []"
  then show "fst (main args lib Map_apply w) =
        Inl (ItemNotFoundException (''Item does not exist in '' @ CONFIG_TABLE args @ ''.''))"
    by (rule main_config_missing)
next
  show "\<exists>new. calls (snd (main args lib Map_apply w)) =
             calls w @ ListObjectsV2 (INPUT_BUCKET args) (PARTITION args) # new
          \<and> (new \<noteq> [] \<longrightarrow> 0 < list_objects_v2_KeyCount w (INPUT_BUCKET args) (PARTITION args))"
    by (rule main_calls)
next
  assume "written (snd (main args lib Map_apply w)) \<noteq> written w \<or>
     commits (snd (main args lib Map_apply w)) \<noteq> commits w"
  then show "0 < list_objects_v2_KeyCount w (INPUT_BUCKET args) (PARTITION args)"
    by (rule main_written)
qed

text \<open>
  The theorem at a store without a config item: with an empty bucket the job raises
  \<^verbatim>\<open>NoNewDataException\<close>, with an object under the partition it raises
  \<^verbatim>\<open>ItemNotFoundException\<close>.
\<close>

theorem gate_precedes_config_lookup_witness:
  "list_objects_v2_KeyCount (example_world [] empty_store)
     (INPUT_BUCKET example_args) (PARTITION example_args) = 0
   \<and> get_Item (empty_store (message_format_request (CONFIG_TABLE example_args))) = []
   \<and> fst (main example_args example_library (\<lambda>f frame. Inr []) (example_world [] empty_store)) =
       Inl (NoNewDataException ''No new data for 2021/01/02 partition.'')
   \<and> calls (snd (main example_args example_library (\<lambda>f frame. Inr [])
                    (example_world [] empty_store))) =
       [ListObjectsV2 ''input'' ''2021/01/02'']
   \<and> 0 < list_objects_v2_KeyCount (example_world [(''input'', ''2021/01/02/a.json'')] empty_store)
           (INPUT_BUCKET example_args) (PARTITION example_args)
   \<and> fst (main example_args example_library (\<lambda>f frame. Inr [])
            (example_world [(''input'', ''2021/01/02/a.json'')] empty_store)) =
       Inl (ItemNotFoundException ''Item does not exist in config.'')"
proof -
  let ?w0 = "example_world [] empty_store"
  let ?w1 = "example_world [(''input'', ''2021/01/02/a.json'')] empty_store"
  have a: "list_objects_v2_KeyCount ?w0 (INPUT_BUCKET example_args) (PARTITION example_args) = 0"
    by (simp add: list_objects_v2_KeyCount_def example_world_def)
  have b: "get_Item (empty_store (message_format_request (CONFIG_TABLE example_args))) = []"
    by (simp add: get_Item_def empty_store_def)
  from gate_precedes_config_lookup [of ?w0 example_args example_library "\<lambda>f frame. Inr []"] a
  have "fst (main example_args example_library (\<lambda>f frame. Inr []) ?w0) =
        Inl (NoNewDataException (''No new data for '' @ PARTITION example_args @ '' partition.''))"
    and "calls (snd (main example_args example_library (\<lambda>f frame. Inr []) ?w0)) =
        calls ?w0 @ [ListObjectsV2 (INPUT_BUCKET example_args) (PARTITION example_args)]"
    by blast+
  then have c: "fst (main example_args example_library (\<lambda>f frame. Inr []) ?w0) =
       Inl (NoNewDataException ''No new data for 2021/01/02 partition.'')"
    and d: "calls (snd (main example_args example_library (\<lambda>f frame. Inr []) ?w0)) =
       [ListObjectsV2 ''input'' ''2021/01/02'']"
    by (simp_all add: example_args_def example_world_def)
  have e: "0 < list_objects_v2_KeyCount ?w1 (INPUT_BUCKET example_args) (PARTITION example_args)"
    by (simp add: list_objects_v2_KeyCount_def example_world_def example_args_def startswith_def)
  have b': "get_Item (dynamodb_get_item ?w1 (message_format_request (CONFIG_TABLE example_args))) = []"
    by (simp add: get_Item_def empty_store_def example_world_def)
  from gate_precedes_config_lookup [of ?w1 example_args example_library "\<lambda>f frame. Inr []"] e b'
  have "fst (main example_args example_library (\<lambda>f frame. Inr []) ?w1) =
        Inl (ItemNotFoundException (''Item does not exist in '' @ CONFIG_TABLE example_args @ ''.''))"
    by blast
  then have f: "fst (main example_args example_library (\<lambda>f frame. Inr []) ?w1) =
       Inl (ItemNotFoundException ''Item does not exist in config.'')"
    by (simp add: example_args_def)
  from a b c d e f show ?thesis by blast
qed

end
